theory Spec2Isabelle
  imports Main "HOL-Library.AList"
begin

section \<open>Values, errors and records of the U2F validation server\<close>

text \<open>
  The request handlers of \<^verbatim>\<open>u2fval/view.py\<close> are embedded as functions from a
  world (database, transaction store, cache, the request-scoped \<^verbatim>\<open>g\<close>) to a
  result and a new world. A raised exception is the \<open>Inl\<close> branch of the result.
  Python dictionaries are association lists read with \<open>map_of\<close>, written with
  \<open>AList.update\<close> and \<open>AList.delete\<close>. JSON text that the module writes
  and parses again (the stored transaction, a device's bind data) is the dictionary
  it serialises.
\<close>

datatype json =
    JNull
  | JBool bool
  | JInt int
  | JStr string
  | JList "json list"
  | JDict "(string \<times> json) list"

type_synonym dict = "(string \<times> json) list"

text \<open>
  The exceptions a handler can end with. The first three are the kinds of the
  \<^verbatim>\<open>exc\<close> module, which the error handlers turn into 400, 404 and the
  no-eligible-devices answer; \<open>ValueError\<close> is answered as a 400 as well; the
  last three are Python's own and are answered by no handler of the module.
\<close>

datatype exn =
    BadInputException string
  | NotFoundException string
  | NoEligibleDevicesException string "dict list"
  | ValueError string
  | KeyError string
  | AttributeError string
  | TypeError string

datatype http_method = GET | POST | DELETE

record Client =
  client_id :: nat
  client_name :: string
  app_id :: string
  valid_facets :: "string list"

record Certificate =
  certificate_id :: nat
  der :: string

record Device =
  handle :: string
  bind_data :: dict
  certificate :: Certificate
  counter :: "int option"
  compromised :: bool
  authenticated_at :: "nat option"
  created_at :: nat
  properties :: dict
  transports :: int

record User =
  owner :: nat
  user_name :: string
  devices :: "(string \<times> Device) list"

record database =
  clients :: "Client list"
  users :: "User list"

record attestation_info =
  trusted :: bool
  vendor_info :: "dict option"
  device_info :: "dict option"
  att_transports :: "int list option"

text \<open>
  What \<^verbatim>\<open>get_attestation\<close> hands back: the provider's attestation object, or the
  empty string that stands for a cached "missing".
\<close>

datatype attestation = Missing | Attestation attestation_info

record cache_state =
  attestations :: "(string \<times> attestation) list"
  cert_metadata :: "(nat \<times> dict) list"

type_synonym txkey = "nat \<times> string \<times> string"

record world =
  db :: database
  store :: "(txkey \<times> dict \<times> nat) list"
  cache :: cache_state
  g_client :: "Client option"

record config =
  debug :: bool
  allow_untrusted :: bool

text \<open>
  The inputs of one request: the transport's principal field, the username of the
  Authorization header (outer \<open>None\<close>: no header), the method, the parsed body, and
  what the server draws while serving it (the clock, the handle and the certificate
  row id given to a new device).
\<close>

record request =
  remote_user :: "string option"
  authorization :: "string option option"
  rmethod :: http_method
  body :: json
  clock :: nat
  new_handle :: string
  new_certificate_id :: nat

section \<open>Client and user resolution\<close>

text \<open>
  \<^verbatim>\<open>Client.query.filter(Client.name == name).one()\<close> raises unless exactly one row
  matches; the bare \<^verbatim>\<open>except\<close> turns every such failure into NotFound.
\<close>

definition get_client :: "config \<Rightarrow> request \<Rightarrow> world \<Rightarrow> (exn + Client) \<times> world" where
  "get_client cfg req w =
     (case g_client w of
        Some client \<Rightarrow> (Inr client, w)
      | None \<Rightarrow>
          (let name = remote_user req;
               name = (if name = None \<and> debug cfg \<and> authorization req \<noteq> None
                       then (case authorization req of Some u \<Rightarrow> u | None \<Rightarrow> name)
                       else name)
           in case name of
                None \<Rightarrow> (Inl (BadInputException ''No client specified''), w)
              | Some n \<Rightarrow>
                  (case filter (\<lambda>c. client_name c = n) (clients (db w)) of
                     [client] \<Rightarrow> (Inr client, w\<lparr>g_client := Some client\<rparr>)
                   | _ \<Rightarrow> (Inl (NotFoundException ''Client not found''), w))))"

definition get_user :: "config \<Rightarrow> request \<Rightarrow> string \<Rightarrow> world \<Rightarrow> (exn + User option) \<times> world" where
  "get_user cfg req user_id w =
     (case get_client cfg req w of
        (Inl e, w1) \<Rightarrow> (Inl e, w1)
      | (Inr client, w1) \<Rightarrow>
          (Inr (find (\<lambda>u. owner u = client_id client \<and> user_name u = user_id) (users (db w1))), w1))"

section \<open>What the module imports\<close>

text \<open>
  The parts \<^verbatim>\<open>view.py\<close> calls and does not define are parameters of the
  model: the four operations of the U2F engine (each may raise), the projection of a
  request for the client, the metadata provider's lookup and the digest used as cache
  key, the descriptor and PEM renderings of the data model, the time-to-live of the
  transaction store, and whether subscripting a user's device collection with an
  absent handle raises \<^verbatim>\<open>KeyError\<close> or yields \<^verbatim>\<open>None\<close>
  (the handlers test the result against \<^verbatim>\<open>None\<close>; the collection class is
  declared outside the module).
\<close>

record client_response =
  clientData :: json
  challenge :: string

record response_data =
  response :: client_response
  resp_properties :: dict

record deps =
  begin_registration :: "string \<Rightarrow> dict list \<Rightarrow> string \<Rightarrow> exn + dict"
  complete_registration :: "dict \<Rightarrow> client_response \<Rightarrow> string list \<Rightarrow> exn + dict \<times> string"
  begin_authentication :: "string \<Rightarrow> dict list \<Rightarrow> string \<Rightarrow> exn + dict"
  complete_authentication ::
    "dict \<Rightarrow> client_response \<Rightarrow> string list \<Rightarrow> exn + dict \<times> int \<times> int"
  data_for_client :: "dict \<Rightarrow> dict"
  provider_get_attestation :: "string \<Rightarrow> attestation_info option"
  sha256_hexdigest :: "string \<Rightarrow> string"
  get_descriptor :: "Device \<Rightarrow> dict option \<Rightarrow> dict"
  get_pem :: "Certificate \<Rightarrow> string"
  ttl :: nat
  missing_handle_raises :: bool

datatype reply = Json json | NoContent | Pem string

section \<open>Transaction store and data-model operations\<close>

text \<open>
  Modelled from the spec: the transaction store (\<^verbatim>\<open>DBStore\<close> of
  \<^verbatim>\<open>transactiondb.py\<close>) is not part of the source. Storing persists the context
  under the composite key and overwrites any prior record under that key; retrieving
  looks the record up and removes it if it is present and unexpired, and returns no
  value if it is absent or expired.
\<close>

definition store_store ::
  "nat \<Rightarrow> txkey \<Rightarrow> dict \<Rightarrow> (txkey \<times> dict \<times> nat) list \<Rightarrow> (txkey \<times> dict \<times> nat) list" where
  "store_store now key data st = AList.update key (data, now) st"

text \<open>
  Modelled from the spec: retrieval, of the same store. A record is expired once its
  time-to-live has elapsed since it was stored.
\<close>

definition store_retrieve ::
  "nat \<Rightarrow> nat \<Rightarrow> txkey \<Rightarrow> (txkey \<times> dict \<times> nat) list
     \<Rightarrow> dict option \<times> (txkey \<times> dict \<times> nat) list" where
  "store_retrieve life now key st =
     (case map_of st key of
        None \<Rightarrow> (None, st)
      | Some (data, created) \<Rightarrow>
          (if now < created + life then (Some data, AList.delete key st) else (None, st)))"

text \<open>
  Modelled from the spec: \<^verbatim>\<open>Device.update_properties\<close> of \<^verbatim>\<open>model.py\<close> is not
  part of the source. Updating properties sets or overwrites the keys present in the
  supplied map; unspecified existing keys are retained. The spec gives the policy for
  maps only; for any other JSON value the model raises.
\<close>

definition update_properties :: "Device \<Rightarrow> json \<Rightarrow> exn + Device" where
  "update_properties dev props =
     (case props of
        JDict m \<Rightarrow> Inr (dev\<lparr>properties := AList.merge (properties dev) m\<rparr>)
      | _ \<Rightarrow> Inl (TypeError ''properties''))"

text \<open>
  Modelled from the spec: \<^verbatim>\<open>User.add_device\<close> of \<^verbatim>\<open>model.py\<close> is not part of
  the source. It creates the device, with a server-generated handle, from the bind
  data, the raw certificate and the transports bitmask; counter and last-authenticated
  time start absent, the device is not compromised and has no properties.
\<close>

definition add_device :: "request \<Rightarrow> User \<Rightarrow> dict \<Rightarrow> string \<Rightarrow> int \<Rightarrow> Device \<times> User" where
  "add_device req u bind cert tr =
     (let dev = \<lparr>handle = new_handle req, bind_data = bind,
                 certificate = \<lparr>certificate_id = new_certificate_id req, der = cert\<rparr>,
                 counter = None, compromised = False, authenticated_at = None,
                 created_at = clock req, properties = [], transports = tr\<rparr>
      in (dev, u\<lparr>devices := AList.update (handle dev) dev (devices u)\<rparr>))"

text \<open>
  \<^verbatim>\<open>user.devices[key]\<close>: the device stored under the handle; for an absent handle
  the outcome is the parameter \<open>missing_handle_raises\<close>.
\<close>

definition devices_getitem :: "deps \<Rightarrow> User \<Rightarrow> json \<Rightarrow> exn + Device option" where
  "devices_getitem D u key =
     (case (case key of JStr h \<Rightarrow> map_of (devices u) h | _ \<Rightarrow> None) of
        Some dev \<Rightarrow> Inr (Some dev)
      | None \<Rightarrow>
          (if missing_handle_raises D
           then Inl (KeyError (case key of JStr h \<Rightarrow> h | _ \<Rightarrow> []))
           else Inr None))"

text \<open>
  The session: a handler changes the objects it loaded, and
  \<^verbatim>\<open>db.session.commit()\<close> writes them back. \<open>set_device\<close> is the user with the
  changed device under the key it was loaded from; \<open>save_user\<close> writes a user row back (a new user
  is appended); a handler that raises before its commit leaves the database as it was.
\<close>

fun replace1 :: "'a \<Rightarrow> 'a \<Rightarrow> 'a list \<Rightarrow> 'a list" where
  "replace1 x y [] = []"
| "replace1 x y (z # zs) = (if z = x then y # zs else z # replace1 x y zs)"

definition set_device :: "User \<Rightarrow> json \<Rightarrow> Device \<Rightarrow> User" where
  "set_device u key dev =
     (case key of
        JStr h \<Rightarrow> u\<lparr>devices := AList.update h dev (devices u)\<rparr>
      | _ \<Rightarrow> u)"

definition save_user :: "User option \<Rightarrow> User \<Rightarrow> database \<Rightarrow> database" where
  "save_user old new d =
     (case old of
        None \<Rightarrow> d\<lparr>users := users d @ [new]\<rparr>
      | Some u \<Rightarrow> d\<lparr>users := replace1 u new (users d)\<rparr>)"

section \<open>Attestation and metadata caches\<close>

definition get_attestation :: "deps \<Rightarrow> string \<Rightarrow> world \<Rightarrow> attestation \<times> world" where
  "get_attestation D cert w =
     (let key = sha256_hexdigest D cert
      in case map_of (attestations (cache w)) key of
           Some a \<Rightarrow> (a, w)
         | None \<Rightarrow>
             (let a = (case provider_get_attestation D cert of
                         Some info \<Rightarrow> Attestation info
                       | None \<Rightarrow> Missing)
              in (a, w\<lparr>cache := (cache w)\<lparr>attestations :=
                          AList.update key a (attestations (cache w))\<rparr>\<rparr>)))"

definition get_metadata :: "deps \<Rightarrow> Device \<Rightarrow> world \<Rightarrow> dict \<times> world" where
  "get_metadata D dev w =
     (let key = certificate_id (certificate dev)
      in case map_of (cert_metadata (cache w)) key of
           Some data \<Rightarrow> (data, w)
         | None \<Rightarrow>
             (let (a, w1) = get_attestation D (der (certificate dev)) w;
                  data = (case a of
                            Missing \<Rightarrow> []
                          | Attestation info \<Rightarrow>
                              (let data = (case vendor_info info of
                                             None \<Rightarrow> []
                                           | Some v \<Rightarrow>
                                               if v = [] then []
                                               else AList.update ''vendor'' (JDict v) [])
                               in case device_info info of
                                    None \<Rightarrow> data
                                  | Some v \<Rightarrow>
                                      if v = [] then data
                                      else AList.update ''device'' (JDict v) data))
              in (data, w1\<lparr>cache := (cache w1)\<lparr>cert_metadata :=
                             AList.update key data (cert_metadata (cache w1))\<rparr>\<rparr>)))"

section \<open>Routes on users\<close>

fun descriptors_for :: "deps \<Rightarrow> Device list \<Rightarrow> world \<Rightarrow> dict list \<times> world" where
  "descriptors_for D [] w = ([], w)"
| "descriptors_for D (d # ds) w =
     (let (md, w1) = get_metadata D d w;
          (rest, w2) = descriptors_for D ds w1
      in (get_descriptor D d (Some md) # rest, w2))"

definition user :: "deps \<Rightarrow> config \<Rightarrow> request \<Rightarrow> string \<Rightarrow> world \<Rightarrow> (exn + reply) \<times> world" where
  "user D cfg req user_id w =
     (case get_user cfg req user_id w of
        (Inl e, w1) \<Rightarrow> (Inl e, w1)
      | (Inr found, w1) \<Rightarrow>
          (if rmethod req = DELETE then
             (case found of
                Some u \<Rightarrow>
                  (Inr NoContent, w1\<lparr>db := (db w1)\<lparr>users := remove1 u (users (db w1))\<rparr>\<rparr>)
              | None \<Rightarrow> (Inr NoContent, w1))
           else
             (case found of
                Some u \<Rightarrow>
                  (let (descriptors, w2) = descriptors_for D (map snd (devices u)) w1
                   in (Inr (Json (JList (map JDict descriptors))), w2))
              | None \<Rightarrow> (Inr (Json (JList [])), w1))))"

section \<open>Registered keys\<close>

definition get_registered_key ::
  "config \<Rightarrow> request \<Rightarrow> Device \<Rightarrow> dict \<Rightarrow> world \<Rightarrow> (exn + dict) \<times> world" where
  "get_registered_key cfg req dev descriptor w =
     (let key = bind_data dev
      in case get_client cfg req w of
           (Inl e, w1) \<Rightarrow> (Inl e, w1)
         | (Inr client, w1) \<Rightarrow>
             (let key = (if map_of key ''appId'' = Some (JStr (app_id client))
                         then AList.delete ''appId'' key else key);
                  key = (if map_of key ''version'' = None
                         then AList.update ''version'' (JStr ''U2F_V2'') key else key)
              in case map_of descriptor ''transports'' of
                   None \<Rightarrow> (Inl (KeyError ''transports''), w1)
                 | Some t \<Rightarrow> (Inr (AList.update ''transports'' t key), w1)))"

section \<open>Registration ceremony\<close>

text \<open>
  The loop over \<^verbatim>\<open>user.devices.values()\<close>, with the two lists it appends to as
  accumulators.
\<close>

fun register_loop ::
  "deps \<Rightarrow> config \<Rightarrow> request \<Rightarrow> Device list \<Rightarrow> dict list \<times> dict list \<Rightarrow> world
     \<Rightarrow> (exn + dict list \<times> dict list) \<times> world" where
  "register_loop D cfg req [] acc w = (Inr acc, w)"
| "register_loop D cfg req (dev # devs) (registered_keys, descriptors) w =
     (let (md, w1) = get_metadata D dev w;
          descriptor = get_descriptor D dev (Some md)
      in case get_registered_key cfg req dev descriptor w1 of
           (Inl e, w2) \<Rightarrow> (Inl e, w2)
         | (Inr key, w2) \<Rightarrow>
             register_loop D cfg req devs
               (registered_keys @ [key], descriptors @ [descriptor]) w2)"

definition register_request ::
  "deps \<Rightarrow> config \<Rightarrow> request \<Rightarrow> string \<Rightarrow> string \<Rightarrow> json \<Rightarrow> world \<Rightarrow> (exn + dict) \<times> world" where
  "register_request D cfg req user_id chal props w =
     (case get_client cfg req w of
        (Inl e, w1) \<Rightarrow> (Inl e, w1)
      | (Inr client, w1) \<Rightarrow>
     (case get_user cfg req user_id w1 of
        (Inl e, w2) \<Rightarrow> (Inl e, w2)
      | (Inr found, w2) \<Rightarrow>
     (case register_loop D cfg req
             (case found of None \<Rightarrow> [] | Some u \<Rightarrow> map snd (devices u)) ([], []) w2 of
        (Inl e, w3) \<Rightarrow> (Inl e, w3)
      | (Inr (registered_keys, descriptors), w3) \<Rightarrow>
     (case begin_registration D (app_id client) registered_keys chal of
        Inl e \<Rightarrow> (Inl e, w3)
      | Inr request_data \<Rightarrow>
          (let request_data = AList.update ''properties'' props request_data;
               w4 = w3\<lparr>store := store_store (clock req) (client_id client, user_id, chal)
                                  request_data (store w3)\<rparr>;
               data = data_for_client D request_data
           in (Inr (AList.update ''descriptors'' (JList (map JDict descriptors)) data),
               w4))))))"

text \<open>
  In \<^verbatim>\<open>not app.config['ALLOW_UNTRUSTED'] and not attestation.trusted\<close> the
  attribute is read only when the flag is off; read on the cached empty string it
  raises AttributeError, and so does \<^verbatim>\<open>attestation.transports\<close> later. The new
  user and the new device reach the database at the commit.
\<close>

definition register_response ::
  "deps \<Rightarrow> config \<Rightarrow> request \<Rightarrow> string \<Rightarrow> response_data \<Rightarrow> world \<Rightarrow> (exn + dict) \<times> world" where
  "register_response D cfg req user_id rdata w =
     (case get_client cfg req w of
        (Inl e, w1) \<Rightarrow> (Inl e, w1)
      | (Inr client, w1) \<Rightarrow>
     (case get_user cfg req user_id w1 of
        (Inl e, w2) \<Rightarrow> (Inl e, w2)
      | (Inr found, w2) \<Rightarrow>
     (let register_response = response rdata;
          chal = challenge register_response
      in case store_retrieve (ttl D) (clock req) (client_id client, user_id, chal) (store w2) of
           (None, st) \<Rightarrow> (Inl (NotFoundException ''Transaction not found''), w2)
         | (Some request_data, st) \<Rightarrow>
     (let w3 = w2\<lparr>store := st\<rparr>
      in case complete_registration D request_data register_response (valid_facets client) of
           Inl e \<Rightarrow> (Inl e, w3)
         | Inr (registration, cert) \<Rightarrow>
     (let (a, w4) = get_attestation D cert w3
      in if \<not> allow_untrusted cfg \<and> a = Missing
         then (Inl (AttributeError ''trusted''), w4)
         else if \<not> allow_untrusted cfg \<and> (case a of Attestation i \<Rightarrow> \<not> trusted i | Missing \<Rightarrow> False)
         then (Inl (BadInputException ''Device attestation not trusted''), w4)
         else
     (let u = (case found of
                 None \<Rightarrow> \<lparr>owner = client_id client, user_name = user_id, devices = []\<rparr>
               | Some u \<Rightarrow> u)
      in case a of
           Missing \<Rightarrow> (Inl (AttributeError ''transports''), w4)
         | Attestation i \<Rightarrow>
     (let tr = sum_list (case att_transports i of None \<Rightarrow> [] | Some ts \<Rightarrow> ts);
          (dev, u) = add_device req u registration cert tr
      in case map_of request_data ''properties'' of
           None \<Rightarrow> (Inl (KeyError ''properties''), w4)
         | Some p \<Rightarrow>
     (case update_properties dev p of
        Inl e \<Rightarrow> (Inl e, w4)
      | Inr dev \<Rightarrow>
     (case update_properties dev (JDict (resp_properties rdata)) of
        Inl e \<Rightarrow> (Inl e, w4)
      | Inr dev \<Rightarrow>
          (let w5 = w4\<lparr>db := save_user found (set_device u (JStr (handle dev)) dev) (db w4)\<rparr>;
               (md, w6) = get_metadata D dev w5;
               resp = get_descriptor D dev (Some md)
           in (Inr (AList.update ''clientData'' (clientData register_response) resp),
               w6)))))))))))"

section \<open>Authentication ceremony\<close>

text \<open>
  The loop over \<^verbatim>\<open>user.devices.items()\<close>, with the two lists and the handle map
  as accumulators.
\<close>

fun sign_loop ::
  "deps \<Rightarrow> config \<Rightarrow> request \<Rightarrow> (string \<times> Device) list \<Rightarrow> dict list \<times> dict list \<times> dict
     \<Rightarrow> world \<Rightarrow> (exn + dict list \<times> dict list \<times> dict) \<times> world" where
  "sign_loop D cfg req [] acc w = (Inr acc, w)"
| "sign_loop D cfg req ((h, dev) # items) (registered_keys, descriptors, handle_map) w =
     (if \<not> compromised dev then
        (let (md, w1) = get_metadata D dev w;
             descriptor = get_descriptor D dev (Some md)
         in case get_registered_key cfg req dev descriptor w1 of
              (Inl e, w2) \<Rightarrow> (Inl e, w2)
            | (Inr key, w2) \<Rightarrow>
                (case map_of key ''keyHandle'' of
                   None \<Rightarrow> (Inl (KeyError ''keyHandle''), w2)
                 | Some (JStr kh) \<Rightarrow>
                     sign_loop D cfg req items
                       (registered_keys @ [key], descriptors @ [descriptor],
                        AList.update kh (JStr (handle dev)) handle_map) w2
                 | Some _ \<Rightarrow> (Inl (TypeError ''keyHandle''), w2)))
      else sign_loop D cfg req items (registered_keys, descriptors, handle_map) w)"

definition sign_request ::
  "deps \<Rightarrow> config \<Rightarrow> request \<Rightarrow> string \<Rightarrow> string \<Rightarrow> json \<Rightarrow> world \<Rightarrow> (exn + dict) \<times> world" where
  "sign_request D cfg req user_id chal props w =
     (case get_client cfg req w of
        (Inl e, w1) \<Rightarrow> (Inl e, w1)
      | (Inr client, w1) \<Rightarrow>
     (case get_user cfg req user_id w1 of
        (Inl e, w2) \<Rightarrow> (Inl e, w2)
      | (Inr found, w2) \<Rightarrow>
          (if found = None \<or> length (case found of Some u \<Rightarrow> devices u | None \<Rightarrow> []) = 0
           then (Inl (NoEligibleDevicesException ''No devices registered'' []), w2)
           else
     (let devs = (case found of Some u \<Rightarrow> devices u | None \<Rightarrow> [])
      in case sign_loop D cfg req devs ([], [], []) w2 of
           (Inl e, w3) \<Rightarrow> (Inl e, w3)
         | (Inr (registered_keys, descriptors, handle_map), w3) \<Rightarrow>
             (if registered_keys = []
              then (Inl (NoEligibleDevicesException ''All devices compromised''
                           (map (\<lambda>d. get_descriptor D d None) (map snd devs))), w3)
              else
     (case begin_authentication D (app_id client) registered_keys chal of
        Inl e \<Rightarrow> (Inl e, w3)
      | Inr request_data \<Rightarrow>
          (let request_data = AList.update ''handleMap'' (JDict handle_map) request_data;
               request_data = AList.update ''properties'' props request_data;
               w4 = w3\<lparr>store := store_store (clock req) (client_id client, user_id, chal)
                                  request_data (store w3)\<rparr>;
               data = data_for_client D request_data
           in (Inr (AList.update ''descriptors'' (JList (map JDict descriptors)) data),
               w4))))))))"

text \<open>
  \<^verbatim>\<open>request_data['handleMap'][device['keyHandle']]\<close>: subscripting the stored handle
  map with the key handle the engine identified.
\<close>

definition json_getitem :: "json \<Rightarrow> json \<Rightarrow> exn + json" where
  "json_getitem m k =
     (case m of
        JDict al \<Rightarrow>
          (case k of
             JStr s \<Rightarrow> (case map_of al s of None \<Rightarrow> Inl (KeyError s) | Some v \<Rightarrow> Inr v)
           | _ \<Rightarrow> Inl (KeyError []))
      | _ \<Rightarrow> Inl (TypeError ''handleMap''))"

text \<open>
  \<^verbatim>\<open>dev.counter or -1\<close>: an absent counter and the counter 0 both read as -1.
\<close>

definition counter_or_minus_one :: "Device \<Rightarrow> int" where
  "counter_or_minus_one dev =
     (case counter dev of None \<Rightarrow> - 1 | Some c \<Rightarrow> if c = 0 then - 1 else c)"

definition sign_response ::
  "deps \<Rightarrow> config \<Rightarrow> request \<Rightarrow> string \<Rightarrow> response_data \<Rightarrow> world
     \<Rightarrow> (exn + dict option) \<times> world" where
  "sign_response D cfg req user_id rdata w =
     (case get_client cfg req w of
        (Inl e, w1) \<Rightarrow> (Inl e, w1)
      | (Inr client, w1) \<Rightarrow>
     (case get_user cfg req user_id w1 of
        (Inl e, w2) \<Rightarrow> (Inl e, w2)
      | (Inr found, w2) \<Rightarrow>
     (let sign_response = response rdata;
          chal = challenge sign_response
      in case store_retrieve (ttl D) (clock req) (client_id client, user_id, chal) (store w2) of
           (None, st) \<Rightarrow> (Inl (NotFoundException ''Transaction not found''), w2)
         | (Some request_data, st) \<Rightarrow>
     (let w3 = w2\<lparr>store := st\<rparr>
      in case complete_authentication D request_data sign_response (valid_facets client) of
           Inl e \<Rightarrow> (Inl e, w3)
         | Inr (device, cnt, presence) \<Rightarrow>
     (case found of
        None \<Rightarrow> (Inl (AttributeError ''devices''), w3)
      | Some u \<Rightarrow>
     (case map_of request_data ''handleMap'' of
        None \<Rightarrow> (Inl (KeyError ''handleMap''), w3)
      | Some hm \<Rightarrow>
     (case map_of device ''keyHandle'' of
        None \<Rightarrow> (Inl (KeyError ''keyHandle''), w3)
      | Some kh \<Rightarrow>
     (case json_getitem hm kh of
        Inl e \<Rightarrow> (Inl e, w3)
      | Inr hv \<Rightarrow>
     (case devices_getitem D u hv of
        Inl e \<Rightarrow> (Inl e, w3)
      | Inr None \<Rightarrow> (Inl (AttributeError ''compromised''), w3)
      | Inr (Some dev) \<Rightarrow>
          (if compromised dev
           then (Inl (BadInputException ''Device is compromised''), w3)
           else if presence = 0
           then (Inl (BadInputException ''User presence byte not set''), w3)
           else if cnt > counter_or_minus_one dev then
             (let dev = dev\<lparr>counter := Some cnt, authenticated_at := Some (clock req)\<rparr>
              in case map_of request_data ''properties'' of
                   None \<Rightarrow> (Inl (KeyError ''properties''), w3)
                 | Some p \<Rightarrow>
                     (case update_properties dev p of
                        Inl e \<Rightarrow> (Inl e, w3)
                      | Inr dev \<Rightarrow>
                          (case update_properties dev (JDict (resp_properties rdata)) of
                             Inl e \<Rightarrow> (Inl e, w3)
                           | Inr dev \<Rightarrow>
                               (let w4 = w3\<lparr>db := save_user found (set_device u hv dev) (db w3)\<rparr>;
                                    (md, w5) = get_metadata D dev w4;
                                    resp = get_descriptor D dev (Some md)
                                in (Inr (Some (AList.update ''clientData''
                                                 (clientData sign_response) resp)), w5)))))
           else (Inr None, w3)))))))))))"

section \<open>Routes on devices\<close>

definition device ::
  "deps \<Rightarrow> config \<Rightarrow> request \<Rightarrow> string \<Rightarrow> string \<Rightarrow> world \<Rightarrow> (exn + reply) \<times> world" where
  "device D cfg req user_id h w =
     (case get_user cfg req user_id w of
        (Inl e, w1) \<Rightarrow> (Inl e, w1)
      | (Inr None, w1) \<Rightarrow> (Inl (NotFoundException ''Device not found''), w1)
      | (Inr (Some u), w1) \<Rightarrow>
     (case devices_getitem D u (JStr h) of
        Inl e \<Rightarrow> (Inl e, w1)
      | Inr found \<Rightarrow>
          (if rmethod req = DELETE then
             (case found of
                Some dev \<Rightarrow>
                  (Inr NoContent,
                   w1\<lparr>db := save_user (Some u) (u\<lparr>devices := AList.delete h (devices u)\<rparr>)
                                (db w1)\<rparr>)
              | None \<Rightarrow> (Inr NoContent, w1))
           else if rmethod req = POST then
             (case found of
                None \<Rightarrow> (Inl (NotFoundException ''Device not found''), w1)
              | Some dev \<Rightarrow>
                  (case update_properties dev (body req) of
                     Inl e \<Rightarrow> (Inl e, w1)
                   | Inr dev \<Rightarrow>
                       (let w2 = w1\<lparr>db := save_user (Some u) (set_device u (JStr h) dev) (db w1)\<rparr>;
                            (md, w3) = get_metadata D dev w2
                        in (Inr (Json (JDict (get_descriptor D dev (Some md)))), w3))))
           else
             (case found of
                None \<Rightarrow> (Inl (NotFoundException ''Device not found''), w1)
              | Some dev \<Rightarrow>
                  (let (md, w2) = get_metadata D dev w1
                   in (Inr (Json (JDict (get_descriptor D dev (Some md)))), w2))))))"

definition device_certificate ::
  "deps \<Rightarrow> config \<Rightarrow> request \<Rightarrow> string \<Rightarrow> string \<Rightarrow> world \<Rightarrow> (exn + reply) \<times> world" where
  "device_certificate D cfg req user_id h w =
     (case get_user cfg req user_id w of
        (Inl e, w1) \<Rightarrow> (Inl e, w1)
      | (Inr None, w1) \<Rightarrow> (Inl (NotFoundException ''Device not found''), w1)
      | (Inr (Some u), w1) \<Rightarrow>
     (case devices_getitem D u (JStr h) of
        Inl e \<Rightarrow> (Inl e, w1)
      | Inr None \<Rightarrow> (Inl (AttributeError ''certificate''), w1)
      | Inr (Some dev) \<Rightarrow> (Inr (Pem (get_pem D (certificate dev))), w1)))"

section \<open>Reading the database, and a concrete deployment\<close>

text \<open>
  Modelled from the spec: the data model's query "find a Device by handle within a
  User", for a client's user; the properties below read the database through it.
\<close>

definition stored_device :: "database \<Rightarrow> nat \<Rightarrow> string \<Rightarrow> string \<Rightarrow> Device option" where
  "stored_device d cid user_id h =
     (case find (\<lambda>u. owner u = cid \<and> user_name u = user_id) (users d) of
        None \<Rightarrow> None
      | Some u \<Rightarrow> map_of (devices u) h)"

text \<open>
  One relying party with one user and one device, whose stored counter is 0, and a
  pending authentication transaction; an engine that accepts every response and reads
  the counter from the response's client data.
\<close>

definition demo_client :: Client where
  "demo_client =
     \<lparr>client_id = 1, client_name = ''rp'', app_id = ''https://rp.example'',
      valid_facets = [''https://rp.example'']\<rparr>"

definition demo_device :: Device where
  "demo_device =
     \<lparr>handle = ''h1'',
      bind_data = [(''keyHandle'', JStr ''kh1''), (''appId'', JStr ''https://rp.example'')],
      certificate = \<lparr>certificate_id = 7, der = ''cert1''\<rparr>,
      counter = Some 0, compromised = False, authenticated_at = Some 5, created_at = 1,
      properties = [(''name'', JStr ''old'')], transports = 0\<rparr>"

definition demo_user :: User where
  "demo_user = \<lparr>owner = 1, user_name = ''alice'', devices = [(''h1'', demo_device)]\<rparr>"

definition demo_transaction :: dict where
  "demo_transaction =
     [(''handleMap'', JDict [(''kh1'', JStr ''h1'')]),
      (''properties'', JDict [(''name'', JStr ''a'')])]"

definition demo_world :: world where
  "demo_world =
     \<lparr>db = \<lparr>clients = [demo_client], users = [demo_user]\<rparr>,
      store = [((1, ''alice'', ''c1''), (demo_transaction, 10))],
      cache = \<lparr>attestations = [], cert_metadata = []\<rparr>,
      g_client = None\<rparr>"

definition demo_descriptor :: "Device \<Rightarrow> dict option \<Rightarrow> dict" where
  "demo_descriptor dev md =
     [(''handle'', JStr (handle dev)), (''transports'', JInt (transports dev)),
      (''properties'', JDict (properties dev))]
     @ (case md of None \<Rightarrow> [] | Some m \<Rightarrow> [(''metadata'', JDict m)])"

definition demo_deps :: deps where
  "demo_deps =
     \<lparr>begin_registration = (\<lambda>app keys chal. Inr [(''challenge'', JStr chal)]),
      complete_registration = (\<lambda>rd resp facets. Inr ([(''keyHandle'', JStr ''kh2'')], ''cert2'')),
      begin_authentication = (\<lambda>app keys chal. Inr [(''challenge'', JStr chal)]),
      complete_authentication =
        (\<lambda>rd resp facets.
           Inr ([(''keyHandle'', JStr ''kh1'')],
                (case clientData resp of JInt n \<Rightarrow> n | _ \<Rightarrow> 0), 1)),
      data_for_client = (\<lambda>rd. AList.delete ''properties'' (AList.delete ''handleMap'' rd)),
      provider_get_attestation =
        (\<lambda>cert. Some \<lparr>trusted = False, vendor_info = None, device_info = None,
                        att_transports = None\<rparr>),
      sha256_hexdigest = (\<lambda>cert. cert),
      get_descriptor = demo_descriptor,
      get_pem = der,
      ttl = 300,
      missing_handle_raises = False\<rparr>"

definition demo_config :: config where
  "demo_config = \<lparr>debug = False, allow_untrusted = False\<rparr>"

definition demo_request :: request where
  "demo_request =
     \<lparr>remote_user = Some ''rp'', authorization = None, rmethod = POST, body = JNull,
      clock = 20, new_handle = ''h2'', new_certificate_id = 8\<rparr>"

definition demo_response :: "int \<Rightarrow> string \<Rightarrow> response_data" where
  "demo_response n chal =
     \<lparr>response = \<lparr>clientData = JInt n, challenge = chal\<rparr>,
      resp_properties = [(''name'', JStr ''b'')]\<rparr>"

text \<open>
  The same deployment with an engine that refuses every registration response with a
  KeyError of its own and identifies, for every authentication response, a key handle
  that no handle map has.
\<close>

definition demo_deps_refusing :: deps where
  "demo_deps_refusing =
     demo_deps
       \<lparr>complete_registration := (\<lambda>rd resp facets. Inl (KeyError ''signature'')),
        complete_authentication :=
          (\<lambda>rd resp facets. Inr ([(''keyHandle'', JStr ''other'')], 1, 1))\<rparr>"

section \<open>Evaluation and framing lemmas\<close>

lemmas demo_defs = demo_client_def demo_device_def demo_user_def demo_transaction_def
  demo_world_def demo_descriptor_def demo_deps_def demo_config_def demo_request_def
  demo_response_def

lemmas handler_defs = get_client_def get_user_def store_retrieve_def store_store_def
  update_properties_def devices_getitem_def set_device_def save_user_def
  get_attestation_def get_metadata_def json_getitem_def counter_or_minus_one_def

lemma get_client_Inr:
  "get_client cfg req w = (Inr c, w1) \<Longrightarrow> w1 = w\<lparr>g_client := Some c\<rparr>"
  by (auto simp: get_client_def Let_def split: option.splits list.splits if_splits)

lemma get_client_Inl:
  "get_client cfg req w = (Inl e, w1) \<Longrightarrow> w1 = w"
  by (auto simp: get_client_def Let_def split: option.splits list.splits if_splits)

lemma get_client_again [simp]:
  "get_client cfg req (w\<lparr>g_client := Some c\<rparr>) = (Inr c, w\<lparr>g_client := Some c\<rparr>)"
  by (simp add: get_client_def)

lemma get_user_resolved [simp]:
  "get_user cfg req user_id (w\<lparr>g_client := Some c\<rparr>)
     = (Inr (find (\<lambda>u. owner u = client_id c \<and> user_name u = user_id) (users (db w))),
        w\<lparr>g_client := Some c\<rparr>)"
  by (simp add: get_user_def)

lemma get_attestation_frame [simp]:
  "db (snd (get_attestation D cert w)) = db w"
  "store (snd (get_attestation D cert w)) = store w"
  "g_client (snd (get_attestation D cert w)) = g_client w"
  by (simp_all add: get_attestation_def Let_def split: option.splits)

lemma get_metadata_frame [simp]:
  "db (snd (get_metadata D dev w)) = db w"
  "store (snd (get_metadata D dev w)) = store w"
  "g_client (snd (get_metadata D dev w)) = g_client w"
  by (simp_all add: get_metadata_def Let_def split_beta split: option.splits)

section \<open>Resolving the client\<close>

lemma filter_one_distinct:
  "distinct (map f xs) \<Longrightarrow> x \<in> set xs \<Longrightarrow> filter (\<lambda>y. f y = f x) xs = [x]"
proof (induction xs)
  case Nil
  then show ?case by simp
next
  case (Cons a xs)
  show ?case
  proof (cases "a = x")
    case True
    have "f x \<notin> f ` set xs" using Cons.prems(1) True by simp
    then have "filter (\<lambda>y. f y = f x) xs = []"
      by (force simp: filter_empty_conv image_iff)
    then show ?thesis using True by simp
  next
    case False
    then have "x \<in> set xs" using Cons.prems(2) by simp
    moreover have "f a \<noteq> f x" using Cons.prems(1) \<open>x \<in> set xs\<close> by auto
    ultimately show ?thesis using Cons by simp
  qed
qed

text \<open>
  C9. At the start of a request (nothing resolved yet): when neither the principal
  field nor, in debug mode, an Authorization username gives a name, resolution fails
  with BadInput "No client specified"; when a name is given and no client row has it,
  resolution fails with NotFound "Client not found"; when a client row has it (names
  being unique among the client rows), that row is returned.
\<close>

theorem get_client_resolution:
  "g_client w = None \<longrightarrow>
     ((remote_user req = None \<and>
         (\<not> debug cfg \<or> authorization req = None \<or> authorization req = Some None)
       \<longrightarrow> fst (get_client cfg req w) = Inl (BadInputException ''No client specified''))
    \<and> (\<forall>n. (remote_user req = Some n \<or>
             (remote_user req = None \<and> debug cfg \<and> authorization req = Some (Some n)))
          \<longrightarrow> ((\<forall>c \<in> set (clients (db w)). client_name c \<noteq> n)
                 \<longrightarrow> fst (get_client cfg req w) = Inl (NotFoundException ''Client not found''))
              \<and> (\<forall>c \<in> set (clients (db w)).
                    client_name c = n \<and> distinct (map client_name (clients (db w)))
                    \<longrightarrow> fst (get_client cfg req w) = Inr c)))"
proof (intro impI conjI allI ballI)
  assume g: "g_client w = None"
  assume "remote_user req = None \<and>
    (\<not> debug cfg \<or> authorization req = None \<or> authorization req = Some None)"
  then show "fst (get_client cfg req w) = Inl (BadInputException ''No client specified'')"
    using g by (auto simp: get_client_def)
next
  fix n
  assume g: "g_client w = None"
  assume n: "remote_user req = Some n \<or>
    (remote_user req = None \<and> debug cfg \<and> authorization req = Some (Some n))"
  assume "\<forall>c \<in> set (clients (db w)). client_name c \<noteq> n"
  then have "filter (\<lambda>c. client_name c = n) (clients (db w)) = []"
    by (auto simp: filter_empty_conv)
  then show "fst (get_client cfg req w) = Inl (NotFoundException ''Client not found'')"
    using g n by (auto simp: get_client_def)
next
  fix n c
  assume g: "g_client w = None"
  assume n: "remote_user req = Some n \<or>
    (remote_user req = None \<and> debug cfg \<and> authorization req = Some (Some n))"
  assume c: "c \<in> set (clients (db w))"
  assume "client_name c = n \<and> distinct (map client_name (clients (db w)))"
  then have "filter (\<lambda>y. client_name y = n) (clients (db w)) = [c]"
    using filter_one_distinct [of client_name "clients (db w)" c] c by auto
  then show "fst (get_client cfg req w) = Inr c"
    using g n by (auto simp: get_client_def)
qed

theorem get_client_resolution_witness:
  "g_client demo_world = None
   \<and> fst (get_client demo_config (demo_request\<lparr>remote_user := None\<rparr>) demo_world)
       = Inl (BadInputException ''No client specified'')
   \<and> fst (get_client demo_config (demo_request\<lparr>remote_user := Some ''nobody''\<rparr>) demo_world)
       = Inl (NotFoundException ''Client not found'')
   \<and> fst (get_client demo_config demo_request demo_world) = Inr demo_client"
  using get_client_resolution [of demo_world "demo_request\<lparr>remote_user := None\<rparr>" demo_config]
    get_client_resolution [of demo_world "demo_request\<lparr>remote_user := Some ''nobody''\<rparr>" demo_config]
    get_client_resolution [of demo_world demo_request demo_config]
  by (simp add: demo_defs)

section \<open>The signature counter\<close>

text \<open>
  C1. A replay must leave the device as it was, also when the stored counter is 0.
  The handler does not: a device whose stored counter is 0 is presented the counter 0
  again; the comparison reads the stored 0 as -1, so the response is accepted, and the
  stored last-authenticated time (5 before, the clock's 20 after) and the stored
  properties (name "old" before, "b" after) are rewritten.
\<close>

theorem sign_response_replay_at_zero:
  "counter demo_device = Some 0 \<and>
   stored_device (db demo_world) 1 ''alice'' ''h1'' = Some demo_device \<and>
   stored_device (db (snd (sign_response demo_deps demo_config demo_request ''alice''
        (demo_response 0 ''c1'') demo_world))) 1 ''alice'' ''h1''
     = Some (demo_device\<lparr>authenticated_at := Some 20, properties := [(''name'', JStr ''b'')]\<rparr>)"
  by (simp add: sign_response_def stored_device_def demo_defs handler_defs Let_def)

section \<open>Missing users and handles on the device routes\<close>

text \<open>
  C3. A certificate request for an existing user and a handle the user does not have
  must fail with NotFound. The certificate route has no test of the looked-up device:
  where the collection yields no value, the handler reads the certificate of nothing
  (AttributeError); where the collection raises, the KeyError escapes. Neither is the
  NotFound kind.
\<close>

theorem device_certificate_missing_handle:
  "fst (device_certificate demo_deps demo_config demo_request ''alice'' ''nope'' demo_world)
     = Inl (AttributeError ''certificate'') \<and>
   fst (device_certificate (demo_deps\<lparr>missing_handle_raises := True\<rparr>) demo_config demo_request
          ''alice'' ''nope'' demo_world)
     = Inl (KeyError ''nope'')"
  by (simp add: device_certificate_def demo_defs handler_defs Let_def)

section \<open>Transactions are consumed\<close>

lemma register_response_no_transaction:
  assumes c: "get_client cfg req w = (Inr client, w1)"
    and t: "fst (store_retrieve (ttl D) (clock req)
                   (client_id client, user_id, challenge (response rdata)) (store w)) = None"
  shows "register_response D cfg req user_id rdata w
           = (Inl (NotFoundException ''Transaction not found''), w\<lparr>g_client := Some client\<rparr>)"
proof -
  have w1: "w1 = w\<lparr>g_client := Some client\<rparr>" using c by (rule get_client_Inr)
  obtain st where st: "store_retrieve (ttl D) (clock req)
      (client_id client, user_id, challenge (response rdata)) (store w) = (None, st)"
    using t by (cases "store_retrieve (ttl D) (clock req)
      (client_id client, user_id, challenge (response rdata)) (store w)") auto
  show ?thesis
    unfolding register_response_def using c by (simp add: w1 st Let_def)
qed

lemma sign_response_no_transaction:
  assumes c: "get_client cfg req w = (Inr client, w1)"
    and t: "fst (store_retrieve (ttl D) (clock req)
                   (client_id client, user_id, challenge (response rdata)) (store w)) = None"
  shows "sign_response D cfg req user_id rdata w
           = (Inl (NotFoundException ''Transaction not found''), w\<lparr>g_client := Some client\<rparr>)"
proof -
  have w1: "w1 = w\<lparr>g_client := Some client\<rparr>" using c by (rule get_client_Inr)
  obtain st where st: "store_retrieve (ttl D) (clock req)
      (client_id client, user_id, challenge (response rdata)) (store w) = (None, st)"
    using t by (cases "store_retrieve (ttl D) (clock req)
      (client_id client, user_id, challenge (response rdata)) (store w)") auto
  show ?thesis
    unfolding sign_response_def using c by (simp add: w1 st Let_def)
qed

lemma register_response_consumes:
  assumes c: "get_client cfg req w = (Inr client, w1)"
    and r: "register_response D cfg req user_id rdata w = (Inr resp, w')"
  shows "store w' = AList.delete (client_id client, user_id, challenge (response rdata)) (store w)
         \<and> clients (db w') = clients (db w)"
proof -
  have w1: "w1 = w\<lparr>g_client := Some client\<rparr>" using c by (rule get_client_Inr)
  show ?thesis
    using r unfolding register_response_def
    by (auto simp: c w1 Let_def split_beta store_retrieve_def save_user_def
          split: option.splits sum.splits if_splits attestation.splits)
qed

lemma sign_response_consumes:
  assumes c: "get_client cfg req w = (Inr client, w1)"
    and r: "sign_response D cfg req user_id rdata w = (Inr resp, w')"
  shows "store w' = AList.delete (client_id client, user_id, challenge (response rdata)) (store w)
         \<and> clients (db w') = clients (db w)"
proof -
  have w1: "w1 = w\<lparr>g_client := Some client\<rparr>" using c by (rule get_client_Inr)
  show ?thesis
    using r unfolding sign_response_def
    by (auto simp: c w1 Let_def split_beta store_retrieve_def save_user_def
          split: option.splits sum.splits if_splits)
qed

lemma get_client_next_request:
  assumes "g_client w = None" and "get_client cfg req w = (Inr c, w1)"
    and "remote_user req' = remote_user req" and "authorization req' = authorization req"
    and "clients (db w2) = clients (db w)"
  shows "get_client cfg req' (w2\<lparr>g_client := None\<rparr>) = (Inr c, w2\<lparr>g_client := Some c\<rparr>)"
  using assms
  by (auto simp: get_client_def Let_def split: option.splits list.splits if_splits)

lemma store_retrieve_deleted:
  "fst (store_retrieve life now key (AList.delete key st)) = None"
  by (simp add: store_retrieve_def AList.delete_conv')

text \<open>
  C8. With the client resolved: when the transaction store has no value for the
  challenge of the response's client data (never stored, expired or already consumed),
  both completions end with NotFound "Transaction not found", whatever the engine is,
  and database, store and cache are as before. A completion that returned consumed the
  record, so the same response presented again in a next request of the same principal
  ends with NotFound.
\<close>

theorem completion_consumes_transaction:
  assumes c: "get_client cfg req w = (Inr client, w1)"
  shows
    "(fst (store_retrieve (ttl D) (clock req)
             (client_id client, user_id, challenge (response rdata)) (store w)) = None \<longrightarrow>
        register_response D cfg req user_id rdata w
          = (Inl (NotFoundException ''Transaction not found''), w\<lparr>g_client := Some client\<rparr>)
        \<and> sign_response D cfg req user_id rdata w
          = (Inl (NotFoundException ''Transaction not found''), w\<lparr>g_client := Some client\<rparr>))
     \<and> (g_client w = None \<and> remote_user req' = remote_user req
          \<and> authorization req' = authorization req \<longrightarrow>
          ((\<exists>resp. fst (register_response D cfg req user_id rdata w) = Inr resp) \<longrightarrow>
             fst (register_response D cfg req' user_id rdata
                    ((snd (register_response D cfg req user_id rdata w))\<lparr>g_client := None\<rparr>))
               = Inl (NotFoundException ''Transaction not found''))
          \<and> ((\<exists>resp. fst (sign_response D cfg req user_id rdata w) = Inr resp) \<longrightarrow>
             fst (sign_response D cfg req' user_id rdata
                    ((snd (sign_response D cfg req user_id rdata w))\<lparr>g_client := None\<rparr>))
               = Inl (NotFoundException ''Transaction not found'')))"
proof (intro conjI impI)
  assume t: "fst (store_retrieve (ttl D) (clock req)
             (client_id client, user_id, challenge (response rdata)) (store w)) = None"
  show "register_response D cfg req user_id rdata w
          = (Inl (NotFoundException ''Transaction not found''), w\<lparr>g_client := Some client\<rparr>)"
    using c t by (rule register_response_no_transaction)
  show "sign_response D cfg req user_id rdata w
          = (Inl (NotFoundException ''Transaction not found''), w\<lparr>g_client := Some client\<rparr>)"
    using c t by (rule sign_response_no_transaction)
next
  assume n: "g_client w = None \<and> remote_user req' = remote_user req
          \<and> authorization req' = authorization req"
  assume "\<exists>resp. fst (register_response D cfg req user_id rdata w) = Inr resp"
  then obtain resp w' where r: "register_response D cfg req user_id rdata w = (Inr resp, w')"
    by (cases "register_response D cfg req user_id rdata w") auto
  have s: "store w' = AList.delete (client_id client, user_id, challenge (response rdata)) (store w)"
    and k: "clients (db w') = clients (db w)"
    using register_response_consumes [OF c r] by simp_all
  have c2: "get_client cfg req' (w'\<lparr>g_client := None\<rparr>) = (Inr client, w'\<lparr>g_client := Some client\<rparr>)"
    using n c k by (intro get_client_next_request [where w = w and req = req and ?w1.0 = w1]) simp_all
  have "fst (store_retrieve (ttl D) (clock req')
          (client_id client, user_id, challenge (response rdata)) (store (w'\<lparr>g_client := None\<rparr>))) = None"
    by (simp add: s store_retrieve_deleted)
  from register_response_no_transaction [OF c2 this]
  show "fst (register_response D cfg req' user_id rdata
                    ((snd (register_response D cfg req user_id rdata w))\<lparr>g_client := None\<rparr>))
               = Inl (NotFoundException ''Transaction not found'')"
    by (simp add: r)
next
  assume n: "g_client w = None \<and> remote_user req' = remote_user req
          \<and> authorization req' = authorization req"
  assume "\<exists>resp. fst (sign_response D cfg req user_id rdata w) = Inr resp"
  then obtain resp w' where r: "sign_response D cfg req user_id rdata w = (Inr resp, w')"
    by (cases "sign_response D cfg req user_id rdata w") auto
  have s: "store w' = AList.delete (client_id client, user_id, challenge (response rdata)) (store w)"
    and k: "clients (db w') = clients (db w)"
    using sign_response_consumes [OF c r] by simp_all
  have c2: "get_client cfg req' (w'\<lparr>g_client := None\<rparr>) = (Inr client, w'\<lparr>g_client := Some client\<rparr>)"
    using n c k by (intro get_client_next_request [where w = w and req = req and ?w1.0 = w1]) simp_all
  have "fst (store_retrieve (ttl D) (clock req')
          (client_id client, user_id, challenge (response rdata)) (store (w'\<lparr>g_client := None\<rparr>))) = None"
    by (simp add: s store_retrieve_deleted)
  from sign_response_no_transaction [OF c2 this]
  show "fst (sign_response D cfg req' user_id rdata
                    ((snd (sign_response D cfg req user_id rdata w))\<lparr>g_client := None\<rparr>))
               = Inl (NotFoundException ''Transaction not found'')"
    by (simp add: r)
qed


theorem completion_consumes_transaction_witness:
  "register_response demo_deps (demo_config\<lparr>allow_untrusted := True\<rparr>) demo_request ''alice''
       (demo_response 1 ''zz'') demo_world
     = (Inl (NotFoundException ''Transaction not found''), demo_world\<lparr>g_client := Some demo_client\<rparr>)
   \<and> sign_response demo_deps (demo_config\<lparr>allow_untrusted := True\<rparr>) demo_request ''alice''
       (demo_response 1 ''zz'') demo_world
     = (Inl (NotFoundException ''Transaction not found''), demo_world\<lparr>g_client := Some demo_client\<rparr>)
   \<and> (\<exists>resp. fst (register_response demo_deps (demo_config\<lparr>allow_untrusted := True\<rparr>)
                      demo_request ''alice'' (demo_response 1 ''c1'') demo_world) = Inr resp)
   \<and> fst (register_response demo_deps (demo_config\<lparr>allow_untrusted := True\<rparr>)
            (demo_request\<lparr>clock := 21\<rparr>) ''alice'' (demo_response 1 ''c1'')
            ((snd (register_response demo_deps (demo_config\<lparr>allow_untrusted := True\<rparr>)
                     demo_request ''alice'' (demo_response 1 ''c1'') demo_world))
               \<lparr>g_client := None\<rparr>))
       = Inl (NotFoundException ''Transaction not found'')
   \<and> (\<exists>resp. fst (sign_response demo_deps (demo_config\<lparr>allow_untrusted := True\<rparr>)
                      demo_request ''alice'' (demo_response 1 ''c1'') demo_world) = Inr resp)
   \<and> fst (sign_response demo_deps (demo_config\<lparr>allow_untrusted := True\<rparr>)
            (demo_request\<lparr>clock := 21\<rparr>) ''alice'' (demo_response 1 ''c1'')
            ((snd (sign_response demo_deps (demo_config\<lparr>allow_untrusted := True\<rparr>)
                     demo_request ''alice'' (demo_response 1 ''c1'') demo_world))
               \<lparr>g_client := None\<rparr>))
       = Inl (NotFoundException ''Transaction not found'')"
proof -
  let ?cfg = "demo_config\<lparr>allow_untrusted := True\<rparr>"
  have c: "get_client ?cfg demo_request demo_world
             = (Inr demo_client, demo_world\<lparr>g_client := Some demo_client\<rparr>)"
    by (simp add: demo_defs get_client_def)
  have a: "fst (store_retrieve (ttl demo_deps) (clock demo_request)
             (client_id demo_client, ''alice'', challenge (response (demo_response 1 ''zz'')))
             (store demo_world)) = None"
    by (simp add: demo_defs store_retrieve_def)
  have g: "g_client demo_world = None \<and> remote_user (demo_request\<lparr>clock := 21\<rparr>) = remote_user demo_request
          \<and> authorization (demo_request\<lparr>clock := 21\<rparr>) = authorization demo_request"
    by (simp add: demo_defs)
  have r: "\<exists>resp. fst (register_response demo_deps ?cfg demo_request ''alice''
                          (demo_response 1 ''c1'') demo_world) = Inr resp"
    by (simp add: register_response_def add_device_def demo_defs handler_defs Let_def)
  have s: "\<exists>resp. fst (sign_response demo_deps ?cfg demo_request ''alice''
                          (demo_response 1 ''c1'') demo_world) = Inr resp"
    by (simp add: sign_response_def demo_defs handler_defs Let_def)
  show ?thesis
    using completion_consumes_transaction [OF c, of demo_deps "''alice''" "demo_response 1 ''zz''"
            "demo_request\<lparr>clock := 21\<rparr>"]
      completion_consumes_transaction [OF c, of demo_deps "''alice''" "demo_response 1 ''c1''"
            "demo_request\<lparr>clock := 21\<rparr>"]
      a g r s
    by simp
qed

section \<open>Registered-key reconstruction\<close>

lemma get_registered_key_value:
  assumes c: "get_client cfg req w = (Inr client, w1)"
    and t: "map_of descriptor ''transports'' = Some t"
  shows "get_registered_key cfg req dev descriptor w =
    (Inr (AList.update ''transports'' t
       (let key = (if map_of (bind_data dev) ''appId'' = Some (JStr (app_id client))
                         then AList.delete ''appId'' (bind_data dev) else bind_data dev)
        in if map_of key ''version'' = None
                         then AList.update ''version'' (JStr ''U2F_V2'') key else key)), w1)"
  unfolding get_registered_key_def
  by (simp add: c t Let_def)


text \<open>
  C6. With the client resolved and a descriptor that has a transports field, the
  reconstruction returns the bind data with exactly these changes: appId is absent
  when the stored one equals the client's app id and kept otherwise; a missing
  version is "U2F_V2" and a stored one is kept; transports is the descriptor's value,
  whatever was stored; every other field is as stored.
\<close>

theorem get_registered_key_normalizes:
  assumes c: "get_client cfg req w = (Inr client, w1)"
    and t: "map_of descriptor ''transports'' = Some t"
  shows "\<exists>key. get_registered_key cfg req dev descriptor w = (Inr key, w1)
          \<and> map_of key ''appId''
              = (if map_of (bind_data dev) ''appId'' = Some (JStr (app_id client)) then None
                 else map_of (bind_data dev) ''appId'')
          \<and> map_of key ''version''
              = (case map_of (bind_data dev) ''version'' of
                   None \<Rightarrow> Some (JStr ''U2F_V2'')
                 | Some v \<Rightarrow> Some v)
          \<and> map_of key ''transports'' = Some t
          \<and> (\<forall>k. k \<noteq> ''appId'' \<and> k \<noteq> ''version'' \<and> k \<noteq> ''transports''
                 \<longrightarrow> map_of key k = map_of (bind_data dev) k)"
proof -
  define key0 where "key0 = (if map_of (bind_data dev) ''appId'' = Some (JStr (app_id client))
                         then AList.delete ''appId'' (bind_data dev) else bind_data dev)"
  define key1 where "key1 = (if map_of key0 ''version'' = None
                         then AList.update ''version'' (JStr ''U2F_V2'') key0 else key0)"
  have v: "get_registered_key cfg req dev descriptor w = (Inr (AList.update ''transports'' t key1), w1)"
    using get_registered_key_value [OF c t, of dev] by (simp add: key0_def key1_def Let_def)
  have k0: "map_of key0 k = (if k = ''appId'' \<and> map_of (bind_data dev) ''appId'' = Some (JStr (app_id client))
                             then None else map_of (bind_data dev) k)" for k
    by (simp add: key0_def AList.delete_conv')
  have k1: "map_of key1 k = (if k = ''version'' \<and> map_of key0 ''version'' = None
                             then Some (JStr ''U2F_V2'') else map_of key0 k)" for k
    by (simp add: key1_def AList.update_conv')
  have k2: "map_of (AList.update ''transports'' t key1) k
              = (if k = ''transports'' then Some t else map_of key1 k)" for k
    by (simp add: AList.update_conv')
  have a: "map_of (AList.update ''transports'' t key1) ''appId''
              = (if map_of (bind_data dev) ''appId'' = Some (JStr (app_id client)) then None
                 else map_of (bind_data dev) ''appId'')"
    by (simp add: k2 k1 k0)
  have b: "map_of (AList.update ''transports'' t key1) ''version''
              = (case map_of (bind_data dev) ''version'' of
                   None \<Rightarrow> Some (JStr ''U2F_V2'')
                 | Some v \<Rightarrow> Some v)"
    by (simp add: k2 k1 k0 split: option.splits)
  have d: "map_of (AList.update ''transports'' t key1) ''transports'' = Some t"
    by (simp add: k2)
  have e: "\<forall>k. k \<noteq> ''appId'' \<and> k \<noteq> ''version'' \<and> k \<noteq> ''transports''
                 \<longrightarrow> map_of (AList.update ''transports'' t key1) k = map_of (bind_data dev) k"
    by (simp add: k2 k1 k0)
  show ?thesis using v a b d e by blast
qed


theorem get_registered_key_normalizes_witness:
  "\<exists>key. get_registered_key demo_config demo_request demo_device
            (demo_descriptor demo_device None) demo_world
            = (Inr key, demo_world\<lparr>g_client := Some demo_client\<rparr>)
          \<and> map_of key ''appId'' = None
          \<and> map_of key ''version'' = Some (JStr ''U2F_V2'')
          \<and> map_of key ''transports'' = Some (JInt 0)
          \<and> map_of key ''keyHandle'' = Some (JStr ''kh1'')"
proof -
  have c: "get_client demo_config demo_request demo_world
             = (Inr demo_client, demo_world\<lparr>g_client := Some demo_client\<rparr>)"
    by (simp add: demo_defs get_client_def)
  have t: "map_of (demo_descriptor demo_device None) ''transports'' = Some (JInt 0)"
    by (simp add: demo_defs)
  have bd: "map_of (bind_data demo_device) ''appId'' = Some (JStr (app_id demo_client))"
    "map_of (bind_data demo_device) ''version'' = None"
    "map_of (bind_data demo_device) ''keyHandle'' = Some (JStr ''kh1'')"
    by (simp_all add: demo_device_def demo_client_def)
  from get_registered_key_normalizes [OF c t, of demo_device]
  obtain key where k: "get_registered_key demo_config demo_request demo_device
            (demo_descriptor demo_device None) demo_world
            = (Inr key, demo_world\<lparr>g_client := Some demo_client\<rparr>)"
    "map_of key ''appId'' = None"
    "map_of key ''version'' = Some (JStr ''U2F_V2'')"
    "map_of key ''transports'' = Some (JInt 0)"
    "\<forall>k. k \<noteq> ''appId'' \<and> k \<noteq> ''version'' \<and> k \<noteq> ''transports''
                 \<longrightarrow> map_of key k = map_of (bind_data demo_device) k"
    unfolding bd by auto
  have "map_of key ''keyHandle'' = Some (JStr ''kh1'')"
    using k(5) bd(3) by simp
  then show ?thesis using k(1-4) by blast
qed

section \<open>Deletion\<close>

text \<open>
  The device route tests the user before it looks at the method: a DELETE that
  addresses a user who does not exist ends with NotFound, not with "no content".
\<close>

theorem device_delete_unknown_user:
  "fst (device demo_deps demo_config (demo_request\<lparr>rmethod := DELETE\<rparr>) ''bob'' ''h1'' demo_world)
     = Inl (NotFoundException ''Device not found'')
   \<and> fst (device demo_deps demo_config (demo_request\<lparr>rmethod := DELETE\<rparr>) ''bob'' ''h1'' demo_world)
     \<noteq> Inr NoContent"
  by (simp add: device_def demo_defs handler_defs Let_def)

text \<open>
  C2, as the handlers have it. For a DELETE with the user lookup done: the user route
  answers "no content" whether or not the user exists, and changes nothing when the
  user does not exist; the device route answers "no content" when the user exists and
  has a device under the handle; the device route for a user who does not exist ends
  with NotFound "Device not found". What the device route does for an existing user
  and a handle the user does not have is not part of the statement: the handler tests
  the looked-up device against \<^verbatim>\<open>None\<close>, but whether that test is reached is
  decided by the subscript before it.
\<close>

theorem delete_no_content:
  assumes m: "rmethod req = DELETE"
  shows
    "(\<forall>found. get_user cfg req user_id w = (Inr found, w1) \<longrightarrow>
        fst (user D cfg req user_id w) = Inr NoContent
        \<and> (found = None \<longrightarrow> snd (user D cfg req user_id w) = w1))
     \<and> (\<forall>u dev. get_user cfg req user_id w = (Inr (Some u), w1)
                \<and> map_of (devices u) h = Some dev \<longrightarrow>
             fst (device D cfg req user_id h w) = Inr NoContent)
     \<and> (get_user cfg req user_id w = (Inr None, w1) \<longrightarrow>
          device D cfg req user_id h w = (Inl (NotFoundException ''Device not found''), w1))"
proof (intro conjI allI impI)
  fix found
  assume g: "get_user cfg req user_id w = (Inr found, w1)"
  show "fst (user D cfg req user_id w) = Inr NoContent"
    by (simp add: user_def g m split: option.splits)
  show "snd (user D cfg req user_id w) = w1" if "found = None"
    using that by (simp add: user_def g m)
next
  fix u dev
  assume "get_user cfg req user_id w = (Inr (Some u), w1)
            \<and> map_of (devices u) h = Some dev"
  then have g: "get_user cfg req user_id w = (Inr (Some u), w1)"
    and d: "map_of (devices u) h = Some dev"
    by simp_all
  show "fst (device D cfg req user_id h w) = Inr NoContent"
    by (simp add: device_def g m d devices_getitem_def)
next
  assume g: "get_user cfg req user_id w = (Inr None, w1)"
  show "device D cfg req user_id h w = (Inl (NotFoundException ''Device not found''), w1)"
    by (simp add: device_def g)
qed

theorem delete_no_content_witness:
  "fst (user demo_deps demo_config (demo_request\<lparr>rmethod := DELETE\<rparr>) ''alice'' demo_world)
     = Inr NoContent
   \<and> user demo_deps demo_config (demo_request\<lparr>rmethod := DELETE\<rparr>) ''bob'' demo_world
     = (Inr NoContent, demo_world\<lparr>g_client := Some demo_client\<rparr>)
   \<and> fst (device demo_deps demo_config (demo_request\<lparr>rmethod := DELETE\<rparr>) ''alice'' ''h1''
            demo_world) = Inr NoContent
   \<and> device demo_deps demo_config (demo_request\<lparr>rmethod := DELETE\<rparr>) ''bob'' ''nope'' demo_world
     = (Inl (NotFoundException ''Device not found''), demo_world\<lparr>g_client := Some demo_client\<rparr>)"
proof -
  let ?req = "demo_request\<lparr>rmethod := DELETE\<rparr>"
  let ?w1 = "demo_world\<lparr>g_client := Some demo_client\<rparr>"
  have m: "rmethod ?req = DELETE" by simp
  have a: "get_user demo_config ?req ''alice'' demo_world = (Inr (Some demo_user), ?w1)"
    by (simp add: demo_defs get_user_def get_client_def)
  have b: "get_user demo_config ?req ''bob'' demo_world = (Inr None, ?w1)"
    by (simp add: demo_defs get_user_def get_client_def)
  have d: "map_of (devices demo_user) ''h1'' = Some demo_device"
    by (simp add: demo_user_def)
  have s: "snd (user demo_deps demo_config ?req ''bob'' demo_world) = ?w1"
    "fst (user demo_deps demo_config ?req ''bob'' demo_world) = Inr NoContent"
    using delete_no_content [OF m, of demo_config "''bob''" demo_world ?w1 demo_deps "''nope''"] b
    by simp_all
  have "user demo_deps demo_config ?req ''bob'' demo_world = (Inr NoContent, ?w1)"
    using s by (simp add: prod_eq_iff)
  then show ?thesis
    using delete_no_content [OF m, of demo_config "''alice''" demo_world ?w1 demo_deps "''h1''"]
      delete_no_content [OF m, of demo_config "''bob''" demo_world ?w1 demo_deps "''nope''"]
      a b d
    by simp
qed

section \<open>Untrusted attestations\<close>

lemma get_attestation_fst_frame [simp]:
  "fst (get_attestation D cert (w\<lparr>g_client := g\<rparr>)) = fst (get_attestation D cert w)"
  "fst (get_attestation D cert (w\<lparr>store := s\<rparr>)) = fst (get_attestation D cert w)"
  "fst (get_attestation D cert (w\<lparr>db := d\<rparr>)) = fst (get_attestation D cert w)"
  by (simp_all add: get_attestation_def Let_def split: option.splits)

lemma find_append_new:
  "find P xs = None \<Longrightarrow> P y \<Longrightarrow> find P (xs @ [y]) = Some y"
  by (induction xs) (auto split: if_splits)

lemma find_Some_holds: "find P xs = Some x \<Longrightarrow> P x"
  by (induction xs) (auto split: if_splits)

lemma find_replace1:
  "find P xs = Some x \<Longrightarrow> P y \<Longrightarrow> find P (replace1 x y xs) = Some y"
proof (induction xs)
  case Nil
  then show ?case by simp
next
  case (Cons a xs)
  have px: "P x" using Cons.prems(1) by (rule find_Some_holds)
  show ?case
  proof (cases "P a")
    case True
    then have "a = x" using Cons.prems(1) by simp
    then show ?thesis using Cons.prems(2) by simp
  next
    case False
    then have "a \<noteq> x" using px by auto
    then show ?thesis using False Cons by simp
  qed
qed

lemma stored_device_save_user:
  assumes "find (\<lambda>u. owner u = cid \<and> user_name u = user_id) (users d) = found"
    and "owner u' = cid" and "user_name u' = user_id"
  shows "stored_device (save_user found u' d) cid user_id h = map_of (devices u') h"
proof (cases found)
  case None
  then show ?thesis using assms
    by (simp add: stored_device_def save_user_def find_append_new)
next
  case (Some u0)
  then show ?thesis using assms
    by (simp add: stored_device_def save_user_def find_replace1)
qed




lemma register_response_commit:
  assumes c: "get_client cfg req w = (Inr client, w1)"
    and t: "store_retrieve (ttl D) (clock req)
              (client_id client, user_id, challenge (response rdata)) (store w)
              = (Some request_data, st)"
    and e: "complete_registration D request_data (response rdata) (valid_facets client)
              = Inr (registration, cert)"
    and a: "fst (get_attestation D cert w) = Attestation i"
    and ok: "allow_untrusted cfg \<or> trusted i"
    and p: "map_of request_data ''properties'' = Some (JDict p1)"
  shows "\<exists>resp. fst (register_response D cfg req user_id rdata w) = Inr resp"
    and "stored_device (db (snd (register_response D cfg req user_id rdata w)))
           (client_id client) user_id (new_handle req)
         = Some \<lparr>handle = new_handle req, bind_data = registration,
                  certificate = \<lparr>certificate_id = new_certificate_id req, der = cert\<rparr>,
                  counter = None, compromised = False, authenticated_at = None,
                  created_at = clock req,
                  properties = AList.merge (AList.merge [] p1) (resp_properties rdata),
                  transports = sum_list (case att_transports i of None \<Rightarrow> [] | Some ts \<Rightarrow> ts)\<rparr>"
proof -
  have w1: "w1 = w\<lparr>g_client := Some client\<rparr>" using c by (rule get_client_Inr)
  have ok2: "(\<not> allow_untrusted cfg \<and> \<not> trusted i) = False" using ok by auto
  show "\<exists>resp. fst (register_response D cfg req user_id rdata w) = Inr resp"
    unfolding register_response_def
    by (simp add: ok2 c w1 t e a p Let_def split_beta add_device_def update_properties_def)
  let ?P = "\<lambda>u. owner u = client_id client \<and> user_name u = user_id"
  show "stored_device (db (snd (register_response D cfg req user_id rdata w)))
           (client_id client) user_id (new_handle req)
         = Some \<lparr>handle = new_handle req, bind_data = registration,
                  certificate = \<lparr>certificate_id = new_certificate_id req, der = cert\<rparr>,
                  counter = None, compromised = False, authenticated_at = None,
                  created_at = clock req,
                  properties = AList.merge (AList.merge [] p1) (resp_properties rdata),
                  transports = sum_list (case att_transports i of None \<Rightarrow> [] | Some ts \<Rightarrow> ts)\<rparr>"
  proof (cases "find ?P (users (db w))")
    case None
    show ?thesis
      unfolding register_response_def
      by (simp add: ok2 c w1 t e a p None Let_def split_beta add_device_def update_properties_def
            set_device_def stored_device_save_user [OF None] AList.update_conv')
  next
    case (Some u0)
    have "?P u0" using Some by (rule find_Some_holds)
    then show ?thesis
      unfolding register_response_def
      by (simp add: ok2 c w1 t e a p Some Let_def split_beta add_device_def update_properties_def
            set_device_def stored_device_save_user [OF Some] AList.update_conv')
  qed
qed





section \<open>Precedence of properties\<close>

lemma register_response_Inr_cases:
  assumes c: "get_client cfg req w = (Inr client, w1)"
    and r: "fst (register_response D cfg req user_id rdata w) = Inr resp"
  obtains request_data registration cert i p1 where
    "fst (store_retrieve (ttl D) (clock req)
       (client_id client, user_id, challenge (response rdata)) (store w)) = Some request_data"
    "complete_registration D request_data (response rdata) (valid_facets client)
       = Inr (registration, cert)"
    "fst (get_attestation D cert w) = Attestation i"
    "allow_untrusted cfg \<or> trusted i"
    "map_of request_data ''properties'' = Some (JDict p1)"
proof -
  have w1: "w1 = w\<lparr>g_client := Some client\<rparr>" using c by (rule get_client_Inr)
  show ?thesis
    using r that unfolding register_response_def
    by (auto simp: c w1 Let_def split_beta update_properties_def
          split: option.splits sum.splits if_splits attestation.splits json.splits prod.splits)
qed


lemma devices_getitem_Some:
  "devices_getitem D u hv = Inr (Some dev) \<Longrightarrow> \<exists>h. hv = JStr h \<and> map_of (devices u) h = Some dev"
  by (auto simp: devices_getitem_def split: json.splits option.splits if_splits)

lemma sign_response_Some_cases:
  assumes c: "get_client cfg req w = (Inr client, w1)"
    and r: "fst (sign_response D cfg req user_id rdata w) = Inr (Some resp)"
  obtains request_data ident cnt presence u hm kh h dev p1 where
    "fst (store_retrieve (ttl D) (clock req)
       (client_id client, user_id, challenge (response rdata)) (store w)) = Some request_data"
    "complete_authentication D request_data (response rdata) (valid_facets client)
       = Inr (ident, cnt, presence)"
    "find (\<lambda>u. owner u = client_id client \<and> user_name u = user_id) (users (db w)) = Some u"
    "map_of request_data ''handleMap'' = Some hm"
    "map_of ident ''keyHandle'' = Some kh"
    "json_getitem hm kh = Inr (JStr h)"
    "map_of (devices u) h = Some dev"
    "\<not> compromised dev" "presence \<noteq> 0" "cnt > counter_or_minus_one dev"
    "map_of request_data ''properties'' = Some (JDict p1)"
proof -
  have w1: "w1 = w\<lparr>g_client := Some client\<rparr>" using c by (rule get_client_Inr)
  show ?thesis
    using r that unfolding sign_response_def
    by (auto simp: c w1 Let_def split_beta update_properties_def
          dest!: devices_getitem_Some
          split: option.splits sum.splits if_splits json.splits prod.splits)
qed

lemma sign_response_commit:
  assumes c: "get_client cfg req w = (Inr client, w1)"
    and t: "fst (store_retrieve (ttl D) (clock req)
       (client_id client, user_id, challenge (response rdata)) (store w)) = Some request_data"
    and e: "complete_authentication D request_data (response rdata) (valid_facets client)
       = Inr (ident, cnt, presence)"
    and f: "find (\<lambda>u. owner u = client_id client \<and> user_name u = user_id) (users (db w)) = Some u"
    and hm: "map_of request_data ''handleMap'' = Some hm"
    and kh: "map_of ident ''keyHandle'' = Some kh"
    and h: "json_getitem hm kh = Inr (JStr h)"
    and d: "map_of (devices u) h = Some dev"
    and ok: "\<not> compromised dev" "presence \<noteq> 0" "cnt > counter_or_minus_one dev"
    and p: "map_of request_data ''properties'' = Some (JDict p1)"
  shows "stored_device (db w) (client_id client) user_id h = Some dev"
    and "stored_device (db (snd (sign_response D cfg req user_id rdata w)))
           (client_id client) user_id h
         = Some (dev\<lparr>counter := Some cnt, authenticated_at := Some (clock req),
                      properties := AList.merge (AList.merge (properties dev) p1)
                                      (resp_properties rdata)\<rparr>)"
proof -
  have w1: "w1 = w\<lparr>g_client := Some client\<rparr>" using c by (rule get_client_Inr)
  have pu: "owner u = client_id client \<and> user_name u = user_id"
    using f by (rule find_Some_holds)
  show "stored_device (db w) (client_id client) user_id h = Some dev"
    by (simp add: stored_device_def f d)
  show "stored_device (db (snd (sign_response D cfg req user_id rdata w)))
           (client_id client) user_id h
         = Some (dev\<lparr>counter := Some cnt, authenticated_at := Some (clock req),
                      properties := AList.merge (AList.merge (properties dev) p1)
                                      (resp_properties rdata)\<rparr>)"
    unfolding sign_response_def
    by (simp add: c w1 t e f hm kh h d ok p pu Let_def split_beta update_properties_def
          devices_getitem_def set_device_def stored_device_save_user [OF f] AList.update_conv')
qed


lemma merge_twice_lookup:
  "map_of (AList.merge (AList.merge q p1) p2) k
     = (case map_of p2 k of
          Some v \<Rightarrow> Some v
        | None \<Rightarrow> (case map_of p1 k of Some v \<Rightarrow> Some v | None \<Rightarrow> map_of q k))"
  by (simp add: AList.merge_conv' map_add_def split: option.splits)

text \<open>
  C5. With the client resolved: after a registration completion that returns a
  descriptor, the stored new device has, for every key, the response-time value when
  the response-time map has the key, and otherwise the begin-time value; after an
  authentication completion that returns a descriptor, the stored device has the
  response-time value when the response-time map has the key, otherwise the begin-time
  value when the begin-time map has it, and otherwise the value stored before.
\<close>

theorem properties_precedence:
  assumes c: "get_client cfg req w = (Inr client, w1)"
  shows
    "((\<exists>resp. fst (register_response D cfg req user_id rdata w) = Inr resp) \<longrightarrow>
        (\<exists>request_data p1 dev'.
            fst (store_retrieve (ttl D) (clock req)
                   (client_id client, user_id, challenge (response rdata)) (store w))
              = Some request_data
          \<and> map_of request_data ''properties'' = Some (JDict p1)
          \<and> stored_device (db (snd (register_response D cfg req user_id rdata w)))
                (client_id client) user_id (new_handle req) = Some dev'
          \<and> (\<forall>k. map_of (properties dev') k
                   = (case map_of (resp_properties rdata) k of
                        Some v \<Rightarrow> Some v
                      | None \<Rightarrow> map_of p1 k))))
     \<and> ((\<exists>resp. fst (sign_response D cfg req user_id rdata w) = Inr (Some resp)) \<longrightarrow>
        (\<exists>request_data p1 h dev dev'.
            fst (store_retrieve (ttl D) (clock req)
                   (client_id client, user_id, challenge (response rdata)) (store w))
              = Some request_data
          \<and> map_of request_data ''properties'' = Some (JDict p1)
          \<and> stored_device (db w) (client_id client) user_id h = Some dev
          \<and> stored_device (db (snd (sign_response D cfg req user_id rdata w)))
                (client_id client) user_id h = Some dev'
          \<and> (\<forall>k. map_of (properties dev') k
                   = (case map_of (resp_properties rdata) k of
                        Some v \<Rightarrow> Some v
                      | None \<Rightarrow> (case map_of p1 k of
                                   Some v \<Rightarrow> Some v
                                 | None \<Rightarrow> map_of (properties dev) k)))))"
proof (intro conjI impI)
  assume "\<exists>resp. fst (register_response D cfg req user_id rdata w) = Inr resp"
  then obtain resp where r: "fst (register_response D cfg req user_id rdata w) = Inr resp" ..
  from c r obtain request_data registration cert i p1 where
    t: "fst (store_retrieve (ttl D) (clock req)
       (client_id client, user_id, challenge (response rdata)) (store w)) = Some request_data"
    and e: "complete_registration D request_data (response rdata) (valid_facets client)
       = Inr (registration, cert)"
    and a: "fst (get_attestation D cert w) = Attestation i"
    and ok: "allow_untrusted cfg \<or> trusted i"
    and p: "map_of request_data ''properties'' = Some (JDict p1)"
    by (rule register_response_Inr_cases)
  obtain st where t': "store_retrieve (ttl D) (clock req)
       (client_id client, user_id, challenge (response rdata)) (store w) = (Some request_data, st)"
    using t by (cases "store_retrieve (ttl D) (clock req)
       (client_id client, user_id, challenge (response rdata)) (store w)") auto
  let ?dev = "\<lparr>handle = new_handle req, bind_data = registration,
                  certificate = \<lparr>certificate_id = new_certificate_id req, der = cert\<rparr>,
                  counter = None, compromised = False, authenticated_at = None,
                  created_at = clock req,
                  properties = AList.merge (AList.merge [] p1) (resp_properties rdata),
                  transports = sum_list (case att_transports i of None \<Rightarrow> [] | Some ts \<Rightarrow> ts)\<rparr>"
  have s: "stored_device (db (snd (register_response D cfg req user_id rdata w)))
             (client_id client) user_id (new_handle req) = Some ?dev"
    using c t' e a ok p by (rule register_response_commit(2))
  have m: "\<forall>k. map_of (properties ?dev) k
              = (case map_of (resp_properties rdata) k of
                   Some v \<Rightarrow> Some v
                 | None \<Rightarrow> map_of p1 k)"
    by (simp add: merge_twice_lookup split: option.splits)
  show "\<exists>request_data p1 dev'.
            fst (store_retrieve (ttl D) (clock req)
                   (client_id client, user_id, challenge (response rdata)) (store w))
              = Some request_data
          \<and> map_of request_data ''properties'' = Some (JDict p1)
          \<and> stored_device (db (snd (register_response D cfg req user_id rdata w)))
                (client_id client) user_id (new_handle req) = Some dev'
          \<and> (\<forall>k. map_of (properties dev') k
                   = (case map_of (resp_properties rdata) k of
                        Some v \<Rightarrow> Some v
                      | None \<Rightarrow> map_of p1 k))"
    using t p s m by blast
next
  assume "\<exists>resp. fst (sign_response D cfg req user_id rdata w) = Inr (Some resp)"
  then obtain resp where r: "fst (sign_response D cfg req user_id rdata w) = Inr (Some resp)" ..
  from c r obtain request_data ident cnt presence u hm kh h dev p1 where
    t: "fst (store_retrieve (ttl D) (clock req)
       (client_id client, user_id, challenge (response rdata)) (store w)) = Some request_data"
    and e: "complete_authentication D request_data (response rdata) (valid_facets client)
       = Inr (ident, cnt, presence)"
    and f: "find (\<lambda>u. owner u = client_id client \<and> user_name u = user_id) (users (db w)) = Some u"
    and hm: "map_of request_data ''handleMap'' = Some hm"
    and kh: "map_of ident ''keyHandle'' = Some kh"
    and h: "json_getitem hm kh = Inr (JStr h)"
    and d: "map_of (devices u) h = Some dev"
    and ok: "\<not> compromised dev" "presence \<noteq> 0" "cnt > counter_or_minus_one dev"
    and p: "map_of request_data ''properties'' = Some (JDict p1)"
    by (rule sign_response_Some_cases)
  let ?dev = "dev\<lparr>counter := Some cnt, authenticated_at := Some (clock req),
                      properties := AList.merge (AList.merge (properties dev) p1)
                                      (resp_properties rdata)\<rparr>"
  have s0: "stored_device (db w) (client_id client) user_id h = Some dev"
    using c t e f hm kh h d ok p by (rule sign_response_commit(1))
  have s: "stored_device (db (snd (sign_response D cfg req user_id rdata w)))
             (client_id client) user_id h = Some ?dev"
    using c t e f hm kh h d ok p by (rule sign_response_commit(2))
  have m: "\<forall>k. map_of (properties ?dev) k
              = (case map_of (resp_properties rdata) k of
                   Some v \<Rightarrow> Some v
                 | None \<Rightarrow> (case map_of p1 k of
                              Some v \<Rightarrow> Some v
                            | None \<Rightarrow> map_of (properties dev) k))"
    by (simp add: merge_twice_lookup)
  show "\<exists>request_data p1 h dev dev'.
            fst (store_retrieve (ttl D) (clock req)
                   (client_id client, user_id, challenge (response rdata)) (store w))
              = Some request_data
          \<and> map_of request_data ''properties'' = Some (JDict p1)
          \<and> stored_device (db w) (client_id client) user_id h = Some dev
          \<and> stored_device (db (snd (sign_response D cfg req user_id rdata w)))
                (client_id client) user_id h = Some dev'
          \<and> (\<forall>k. map_of (properties dev') k
                   = (case map_of (resp_properties rdata) k of
                        Some v \<Rightarrow> Some v
                      | None \<Rightarrow> (case map_of p1 k of
                                   Some v \<Rightarrow> Some v
                                 | None \<Rightarrow> map_of (properties dev) k)))"
    using t p s0 s m by blast
qed


theorem properties_precedence_witness:
  "(\<exists>request_data p1 dev'.
       fst (store_retrieve (ttl demo_deps) (clock demo_request)
              (client_id demo_client, ''alice'', challenge (response (demo_response 1 ''c1'')))
              (store demo_world)) = Some request_data
     \<and> map_of request_data ''properties'' = Some (JDict p1)
     \<and> stored_device
          (db (snd (register_response demo_deps (demo_config\<lparr>allow_untrusted := True\<rparr>)
                      demo_request ''alice'' (demo_response 1 ''c1'') demo_world)))
          (client_id demo_client) ''alice'' (new_handle demo_request) = Some dev'
     \<and> (\<forall>k. map_of (properties dev') k
              = (case map_of (resp_properties (demo_response 1 ''c1'')) k of
                   Some v \<Rightarrow> Some v
                 | None \<Rightarrow> map_of p1 k)))
   \<and> (\<exists>request_data p1 h dev dev'.
       fst (store_retrieve (ttl demo_deps) (clock demo_request)
              (client_id demo_client, ''alice'', challenge (response (demo_response 1 ''c1'')))
              (store demo_world)) = Some request_data
     \<and> map_of request_data ''properties'' = Some (JDict p1)
     \<and> stored_device (db demo_world) (client_id demo_client) ''alice'' h = Some dev
     \<and> stored_device
          (db (snd (sign_response demo_deps (demo_config\<lparr>allow_untrusted := True\<rparr>)
                      demo_request ''alice'' (demo_response 1 ''c1'') demo_world)))
          (client_id demo_client) ''alice'' h = Some dev'
     \<and> (\<forall>k. map_of (properties dev') k
              = (case map_of (resp_properties (demo_response 1 ''c1'')) k of
                   Some v \<Rightarrow> Some v
                 | None \<Rightarrow> (case map_of p1 k of
                              Some v \<Rightarrow> Some v
                            | None \<Rightarrow> map_of (properties dev) k))))"
proof -
  let ?cfg = "demo_config\<lparr>allow_untrusted := True\<rparr>"
  have c: "get_client ?cfg demo_request demo_world
             = (Inr demo_client, demo_world\<lparr>g_client := Some demo_client\<rparr>)"
    by (simp add: demo_defs get_client_def)
  have r: "\<exists>resp. fst (register_response demo_deps ?cfg demo_request ''alice''
                          (demo_response 1 ''c1'') demo_world) = Inr resp"
    by (simp add: register_response_def add_device_def demo_defs handler_defs Let_def)
  have s: "\<exists>resp. fst (sign_response demo_deps ?cfg demo_request ''alice''
                          (demo_response 1 ''c1'') demo_world) = Inr (Some resp)"
    by (simp add: sign_response_def demo_defs handler_defs Let_def)
  show ?thesis
    using properties_precedence [OF c, of demo_deps "''alice''" "demo_response 1 ''c1''"] r s
    by blast
qed

section \<open>Keys of the stored transaction\<close>

lemma store_retrieve_stored:
  "now < created + life \<Longrightarrow>
     fst (store_retrieve life now key (store_store created key data st)) = Some data"
  by (simp add: store_retrieve_def store_store_def AList.update_conv')

lemma register_request_stores:
  assumes c: "get_client cfg req w = (Inr client, w1)"
    and r: "fst (register_request D cfg req user_id chal props w) = Inr data"
  shows "\<exists>rd st. store (snd (register_request D cfg req user_id chal props w))
                    = store_store (clock req) (client_id client, user_id, chal) rd st
                \<and> map_of rd ''properties'' = Some props"
proof -
  have w1: "w1 = w\<lparr>g_client := Some client\<rparr>" using c by (rule get_client_Inr)
  show ?thesis
    using r unfolding register_request_def
    by (auto simp: c w1 Let_def AList.update_conv' split: prod.splits sum.splits)
qed

lemma sign_request_stores:
  assumes c: "get_client cfg req w = (Inr client, w1)"
    and r: "fst (sign_request D cfg req user_id chal props w) = Inr data"
  shows "\<exists>rd st hm. store (snd (sign_request D cfg req user_id chal props w))
                    = store_store (clock req) (client_id client, user_id, chal) rd st
                \<and> map_of rd ''handleMap'' = Some (JDict hm)
                \<and> map_of rd ''properties'' = Some props"
proof -
  have w1: "w1 = w\<lparr>g_client := Some client\<rparr>" using c by (rule get_client_Inr)
  show ?thesis
    using r unfolding sign_request_def
    by (auto simp: c w1 Let_def AList.update_conv' split: prod.splits sum.splits if_splits)
qed

lemma register_response_KeyError:
  assumes c: "get_client cfg req w = (Inr client, w1)"
    and t: "fst (store_retrieve (ttl D) (clock req)
                   (client_id client, user_id, challenge (response rdata)) (store w)) = Some rd"
    and p: "map_of rd ''properties'' = Some props"
    and r: "fst (register_response D cfg req user_id rdata w) = Inl (KeyError k)"
  shows "complete_registration D rd (response rdata) (valid_facets client) = Inl (KeyError k)"
proof -
  have w1: "w1 = w\<lparr>g_client := Some client\<rparr>" using c by (rule get_client_Inr)
  obtain st where t': "store_retrieve (ttl D) (clock req)
       (client_id client, user_id, challenge (response rdata)) (store w) = (Some rd, st)"
    using t by (cases "store_retrieve (ttl D) (clock req)
       (client_id client, user_id, challenge (response rdata)) (store w)") auto
  show ?thesis
    using r unfolding register_response_def
    by (auto simp: c w1 t' p Let_def split_beta update_properties_def
          split: sum.splits if_splits attestation.splits json.splits)
qed

lemma sign_response_KeyError:
  assumes c: "get_client cfg req w = (Inr client, w1)"
    and t: "fst (store_retrieve (ttl D) (clock req)
                   (client_id client, user_id, challenge (response rdata)) (store w)) = Some rd"
    and h: "map_of rd ''handleMap'' = Some hm"
    and p: "map_of rd ''properties'' = Some props"
    and r: "fst (sign_response D cfg req user_id rdata w) = Inl (KeyError k)"
  shows "complete_authentication D rd (response rdata) (valid_facets client) = Inl (KeyError k)
         \<or> (\<exists>ident cnt presence.
               complete_authentication D rd (response rdata) (valid_facets client)
                 = Inr (ident, cnt, presence)
             \<and> ((map_of ident ''keyHandle'' = None \<and> k = ''keyHandle'')
                \<or> (\<exists>kh. map_of ident ''keyHandle'' = Some kh
                      \<and> (json_getitem hm kh = Inl (KeyError k)
                         \<or> (\<exists>hv u. json_getitem hm kh = Inr hv
                               \<and> find (\<lambda>u. owner u = client_id client \<and> user_name u = user_id)
                                     (users (db w)) = Some u
                               \<and> devices_getitem D u hv = Inl (KeyError k))))))"
proof -
  have w1: "w1 = w\<lparr>g_client := Some client\<rparr>" using c by (rule get_client_Inr)
  obtain st where t': "store_retrieve (ttl D) (clock req)
       (client_id client, user_id, challenge (response rdata)) (store w) = (Some rd, st)"
    using t by (cases "store_retrieve (ttl D) (clock req)
       (client_id client, user_id, challenge (response rdata)) (store w)") auto
  show ?thesis
  proof (cases "complete_authentication D rd (response rdata) (valid_facets client)")
    case (Inl e)
    then show ?thesis
      using r unfolding sign_response_def by (simp add: c w1 t' Let_def)
  next
    case (Inr res)
    obtain ident cnt presence where res: "res = (ident, cnt, presence)" by (cases res)
    note e = Inr [unfolded res]
    show ?thesis
    proof (cases "find (\<lambda>u. owner u = client_id client \<and> user_name u = user_id) (users (db w))")
      case None
      then show ?thesis
        using r unfolding sign_response_def by (simp add: c w1 t' e Let_def)
    next
      case (Some u)
      show ?thesis
      proof (cases "map_of ident ''keyHandle''")
        case None
        then show ?thesis
          using r unfolding sign_response_def by (simp add: c w1 t' e Some h Let_def)
      next
        case kh: (Some kh)
        show ?thesis
        proof (cases "json_getitem hm kh")
          case (Inl x)
          then show ?thesis
            using r unfolding sign_response_def by (simp add: c w1 t' e Some h kh Let_def)
        next
          case hv: (Inr hv)
          have "devices_getitem D u hv = Inl (KeyError k)"
            using r unfolding sign_response_def
            by (auto simp: c w1 t' e Some h kh hv p Let_def split_beta update_properties_def
                  split: sum.splits option.splits if_splits json.splits)
          then show ?thesis using e Some kh hv by blast
        qed
      qed
    qed
  qed
qed

text \<open>
  C10. With the client resolved: when begin-registration returns, the record that a
  retrieval under (client id, user, challenge) yields before expiry has the key
  "properties", bound to the properties given; and whenever registration completion
  retrieves that record, a KeyError it ends with is the engine's own: the subscript
  \<^verbatim>\<open>request_data['properties']\<close> does not raise. When begin-authentication
  returns, the record so retrieved has the key "handleMap", bound to a map, and the
  key "properties"; and whenever authentication completion retrieves that record, a
  KeyError it ends with is the engine's own, or that of \<^verbatim>\<open>device['keyHandle']\<close>,
  or of the subscript of the handle map with the key handle, or of the subscript of
  the user's devices with the handle: neither \<^verbatim>\<open>request_data['handleMap']\<close> nor
  \<^verbatim>\<open>request_data['properties']\<close> raises.
\<close>

theorem begin_records_carry_keys:
  assumes c: "get_client cfg req w = (Inr client, w1)"
  shows
    "((\<exists>data. fst (register_request D cfg req user_id chal props w) = Inr data) \<longrightarrow>
        (\<exists>rd. map_of rd ''properties'' = Some props
            \<and> (\<forall>now. now < clock req + ttl D \<longrightarrow>
                  fst (store_retrieve (ttl D) now (client_id client, user_id, chal)
                         (store (snd (register_request D cfg req user_id chal props w))))
                    = Some rd)
            \<and> (\<forall>cfg' req' uid rdata w2 w3 client' k.
                  get_client cfg' req' w2 = (Inr client', w3)
                \<and> fst (store_retrieve (ttl D) (clock req')
                         (client_id client', uid, challenge (response rdata)) (store w2))
                    = Some rd
                \<and> fst (register_response D cfg' req' uid rdata w2) = Inl (KeyError k)
                \<longrightarrow> complete_registration D rd (response rdata) (valid_facets client')
                      = Inl (KeyError k))))
     \<and> ((\<exists>data. fst (sign_request D cfg req user_id chal props w) = Inr data) \<longrightarrow>
        (\<exists>rd hm. map_of rd ''handleMap'' = Some (JDict hm)
            \<and> map_of rd ''properties'' = Some props
            \<and> (\<forall>now. now < clock req + ttl D \<longrightarrow>
                  fst (store_retrieve (ttl D) now (client_id client, user_id, chal)
                         (store (snd (sign_request D cfg req user_id chal props w))))
                    = Some rd)
            \<and> (\<forall>cfg' req' uid rdata w2 w3 client' k.
                  get_client cfg' req' w2 = (Inr client', w3)
                \<and> fst (store_retrieve (ttl D) (clock req')
                         (client_id client', uid, challenge (response rdata)) (store w2))
                    = Some rd
                \<and> fst (sign_response D cfg' req' uid rdata w2) = Inl (KeyError k)
                \<longrightarrow> complete_authentication D rd (response rdata) (valid_facets client')
                      = Inl (KeyError k)
                    \<or> (\<exists>ident cnt presence.
                          complete_authentication D rd (response rdata) (valid_facets client')
                            = Inr (ident, cnt, presence)
                        \<and> ((map_of ident ''keyHandle'' = None \<and> k = ''keyHandle'')
                           \<or> (\<exists>kh. map_of ident ''keyHandle'' = Some kh
                                 \<and> (json_getitem (JDict hm) kh = Inl (KeyError k)
                                    \<or> (\<exists>hv u. json_getitem (JDict hm) kh = Inr hv
                                          \<and> find (\<lambda>u. owner u = client_id client'
                                                       \<and> user_name u = uid)
                                                (users (db w2)) = Some u
                                          \<and> devices_getitem D u hv = Inl (KeyError k)))))))))"
proof (intro conjI impI)
  assume "\<exists>data. fst (register_request D cfg req user_id chal props w) = Inr data"
  then obtain data where "fst (register_request D cfg req user_id chal props w) = Inr data" ..
  with c obtain rd st where
    s: "store (snd (register_request D cfg req user_id chal props w))
          = store_store (clock req) (client_id client, user_id, chal) rd st"
    and p: "map_of rd ''properties'' = Some props"
    using register_request_stores by blast
  have a: "\<forall>now. now < clock req + ttl D \<longrightarrow>
                  fst (store_retrieve (ttl D) now (client_id client, user_id, chal)
                         (store (snd (register_request D cfg req user_id chal props w))))
                    = Some rd"
    by (simp add: s store_retrieve_stored)
  have b: "\<forall>cfg' req' uid rdata w2 w3 client' k.
                  get_client cfg' req' w2 = (Inr client', w3)
                \<and> fst (store_retrieve (ttl D) (clock req')
                         (client_id client', uid, challenge (response rdata)) (store w2))
                    = Some rd
                \<and> fst (register_response D cfg' req' uid rdata w2) = Inl (KeyError k)
                \<longrightarrow> complete_registration D rd (response rdata) (valid_facets client')
                      = Inl (KeyError k)"
    using p by (blast intro: register_response_KeyError)
  show "\<exists>rd. map_of rd ''properties'' = Some props
            \<and> (\<forall>now. now < clock req + ttl D \<longrightarrow>
                  fst (store_retrieve (ttl D) now (client_id client, user_id, chal)
                         (store (snd (register_request D cfg req user_id chal props w))))
                    = Some rd)
            \<and> (\<forall>cfg' req' uid rdata w2 w3 client' k.
                  get_client cfg' req' w2 = (Inr client', w3)
                \<and> fst (store_retrieve (ttl D) (clock req')
                         (client_id client', uid, challenge (response rdata)) (store w2))
                    = Some rd
                \<and> fst (register_response D cfg' req' uid rdata w2) = Inl (KeyError k)
                \<longrightarrow> complete_registration D rd (response rdata) (valid_facets client')
                      = Inl (KeyError k))"
    using p a b by blast
next
  assume "\<exists>data. fst (sign_request D cfg req user_id chal props w) = Inr data"
  then obtain data where "fst (sign_request D cfg req user_id chal props w) = Inr data" ..
  with c obtain rd st hm where
    s: "store (snd (sign_request D cfg req user_id chal props w))
          = store_store (clock req) (client_id client, user_id, chal) rd st"
    and h: "map_of rd ''handleMap'' = Some (JDict hm)"
    and p: "map_of rd ''properties'' = Some props"
    using sign_request_stores by blast
  have a: "\<forall>now. now < clock req + ttl D \<longrightarrow>
                  fst (store_retrieve (ttl D) now (client_id client, user_id, chal)
                         (store (snd (sign_request D cfg req user_id chal props w))))
                    = Some rd"
    by (simp add: s store_retrieve_stored)
  have b: "\<forall>cfg' req' uid rdata w2 w3 client' k.
                  get_client cfg' req' w2 = (Inr client', w3)
                \<and> fst (store_retrieve (ttl D) (clock req')
                         (client_id client', uid, challenge (response rdata)) (store w2))
                    = Some rd
                \<and> fst (sign_response D cfg' req' uid rdata w2) = Inl (KeyError k)
                \<longrightarrow> complete_authentication D rd (response rdata) (valid_facets client')
                      = Inl (KeyError k)
                    \<or> (\<exists>ident cnt presence.
                          complete_authentication D rd (response rdata) (valid_facets client')
                            = Inr (ident, cnt, presence)
                        \<and> ((map_of ident ''keyHandle'' = None \<and> k = ''keyHandle'')
                           \<or> (\<exists>kh. map_of ident ''keyHandle'' = Some kh
                                 \<and> (json_getitem (JDict hm) kh = Inl (KeyError k)
                                    \<or> (\<exists>hv u. json_getitem (JDict hm) kh = Inr hv
                                          \<and> find (\<lambda>u. owner u = client_id client'
                                                       \<and> user_name u = uid)
                                                (users (db w2)) = Some u
                                          \<and> devices_getitem D u hv = Inl (KeyError k))))))"
  proof (intro allI impI)
    fix cfg' req' uid rdata w2 w3 client' k
    assume "get_client cfg' req' w2 = (Inr client', w3)
                \<and> fst (store_retrieve (ttl D) (clock req')
                         (client_id client', uid, challenge (response rdata)) (store w2))
                    = Some rd
                \<and> fst (sign_response D cfg' req' uid rdata w2) = Inl (KeyError k)"
    then have c2: "get_client cfg' req' w2 = (Inr client', w3)"
      and t2: "fst (store_retrieve (ttl D) (clock req')
                         (client_id client', uid, challenge (response rdata)) (store w2))
                    = Some rd"
      and r2: "fst (sign_response D cfg' req' uid rdata w2) = Inl (KeyError k)"
      by simp_all
    show "complete_authentication D rd (response rdata) (valid_facets client')
                      = Inl (KeyError k)
                    \<or> (\<exists>ident cnt presence.
                          complete_authentication D rd (response rdata) (valid_facets client')
                            = Inr (ident, cnt, presence)
                        \<and> ((map_of ident ''keyHandle'' = None \<and> k = ''keyHandle'')
                           \<or> (\<exists>kh. map_of ident ''keyHandle'' = Some kh
                                 \<and> (json_getitem (JDict hm) kh = Inl (KeyError k)
                                    \<or> (\<exists>hv u. json_getitem (JDict hm) kh = Inr hv
                                          \<and> find (\<lambda>u. owner u = client_id client'
                                                       \<and> user_name u = uid)
                                                (users (db w2)) = Some u
                                          \<and> devices_getitem D u hv = Inl (KeyError k))))))"
      using c2 t2 h p r2 by (rule sign_response_KeyError)
  qed
  show "\<exists>rd hm. map_of rd ''handleMap'' = Some (JDict hm)
            \<and> map_of rd ''properties'' = Some props
            \<and> (\<forall>now. now < clock req + ttl D \<longrightarrow>
                  fst (store_retrieve (ttl D) now (client_id client, user_id, chal)
                         (store (snd (sign_request D cfg req user_id chal props w))))
                    = Some rd)
            \<and> (\<forall>cfg' req' uid rdata w2 w3 client' k.
                  get_client cfg' req' w2 = (Inr client', w3)
                \<and> fst (store_retrieve (ttl D) (clock req')
                         (client_id client', uid, challenge (response rdata)) (store w2))
                    = Some rd
                \<and> fst (sign_response D cfg' req' uid rdata w2) = Inl (KeyError k)
                \<longrightarrow> complete_authentication D rd (response rdata) (valid_facets client')
                      = Inl (KeyError k)
                    \<or> (\<exists>ident cnt presence.
                          complete_authentication D rd (response rdata) (valid_facets client')
                            = Inr (ident, cnt, presence)
                        \<and> ((map_of ident ''keyHandle'' = None \<and> k = ''keyHandle'')
                           \<or> (\<exists>kh. map_of ident ''keyHandle'' = Some kh
                                 \<and> (json_getitem (JDict hm) kh = Inl (KeyError k)
                                    \<or> (\<exists>hv u. json_getitem (JDict hm) kh = Inr hv
                                          \<and> find (\<lambda>u. owner u = client_id client'
                                                       \<and> user_name u = uid)
                                                (users (db w2)) = Some u
                                          \<and> devices_getitem D u hv = Inl (KeyError k)))))))"
    using h p a b by blast
qed


theorem begin_records_carry_keys_witness:
  "(\<exists>rd. map_of rd ''properties'' = Some (JDict [])
       \<and> fst (register_response demo_deps_refusing demo_config (demo_request\<lparr>clock := 21\<rparr>)
                ''alice'' (demo_response 1 ''c2'')
                ((snd (register_request demo_deps_refusing demo_config demo_request ''alice''
                         ''c2'' (JDict []) demo_world))\<lparr>g_client := None\<rparr>))
           = Inl (KeyError ''signature'')
       \<and> complete_registration demo_deps_refusing rd (response (demo_response 1 ''c2''))
            (valid_facets demo_client) = Inl (KeyError ''signature''))
   \<and> (\<exists>rd hm. map_of rd ''handleMap'' = Some (JDict hm)
       \<and> map_of rd ''properties'' = Some (JDict [])
       \<and> fst (sign_response demo_deps_refusing demo_config (demo_request\<lparr>clock := 21\<rparr>)
                ''alice'' (demo_response 1 ''c2'')
                ((snd (sign_request demo_deps_refusing demo_config demo_request ''alice''
                         ''c2'' (JDict []) demo_world))\<lparr>g_client := None\<rparr>))
           = Inl (KeyError ''other'')
       \<and> (\<exists>ident cnt presence kh.
             complete_authentication demo_deps_refusing rd (response (demo_response 1 ''c2''))
               (valid_facets demo_client) = Inr (ident, cnt, presence)
           \<and> map_of ident ''keyHandle'' = Some kh
           \<and> (json_getitem (JDict hm) kh = Inl (KeyError ''other'')
              \<or> (\<exists>hv u. json_getitem (JDict hm) kh = Inr hv
                    \<and> find (\<lambda>u. owner u = client_id demo_client \<and> user_name u = ''alice'')
                          (users (db ((snd (sign_request demo_deps_refusing demo_config
                                              demo_request ''alice'' ''c2'' (JDict [])
                                              demo_world))\<lparr>g_client := None\<rparr>)))
                        = Some u
                    \<and> devices_getitem demo_deps_refusing u hv = Inl (KeyError ''other'')))))"
proof -
  let ?D = demo_deps_refusing
  let ?req' = "demo_request\<lparr>clock := 21\<rparr>"
  let ?rdata = "demo_response 1 ''c2''"
  let ?wr = "(snd (register_request ?D demo_config demo_request ''alice'' ''c2'' (JDict [])
                     demo_world))\<lparr>g_client := None\<rparr>"
  let ?ws = "(snd (sign_request ?D demo_config demo_request ''alice'' ''c2'' (JDict [])
                     demo_world))\<lparr>g_client := None\<rparr>"
  have c: "get_client demo_config demo_request demo_world
             = (Inr demo_client, demo_world\<lparr>g_client := Some demo_client\<rparr>)"
    by (simp add: demo_defs get_client_def)
  have n: "(21::nat) < clock demo_request + ttl ?D" "clock ?req' = 21"
    "challenge (response ?rdata) = ''c2''"
    by (simp_all add: demo_defs demo_deps_refusing_def)
  have br: "\<exists>data. fst (register_request ?D demo_config demo_request ''alice'' ''c2''
                          (JDict []) demo_world) = Inr data"
    by (simp add: register_request_def get_registered_key_def demo_deps_refusing_def
          demo_defs handler_defs Let_def)
  have bs: "\<exists>data. fst (sign_request ?D demo_config demo_request ''alice'' ''c2''
                          (JDict []) demo_world) = Inr data"
    by (simp add: sign_request_def get_registered_key_def demo_deps_refusing_def
          demo_defs handler_defs Let_def)
  have cr: "get_client demo_config ?req' ?wr = (Inr demo_client, ?wr\<lparr>g_client := Some demo_client\<rparr>)"
    by (simp add: register_request_def get_registered_key_def demo_deps_refusing_def
          demo_defs handler_defs Let_def)
  have cs: "get_client demo_config ?req' ?ws = (Inr demo_client, ?ws\<lparr>g_client := Some demo_client\<rparr>)"
    by (simp add: sign_request_def get_registered_key_def demo_deps_refusing_def
          demo_defs handler_defs Let_def)
  have kr: "fst (register_response ?D demo_config ?req' ''alice'' ?rdata ?wr)
              = Inl (KeyError ''signature'')"
    by (simp add: register_request_def register_response_def get_registered_key_def
          demo_deps_refusing_def demo_defs handler_defs Let_def)
  have ks: "fst (sign_response ?D demo_config ?req' ''alice'' ?rdata ?ws)
              = Inl (KeyError ''other'')"
    by (simp add: sign_request_def sign_response_def get_registered_key_def
          demo_deps_refusing_def demo_defs handler_defs Let_def)
  note th = begin_records_carry_keys [OF c, of ?D "''alice''" "''c2''" "JDict []"]
  from th br obtain rd where
    r1: "map_of rd ''properties'' = Some (JDict [])"
    and r2: "\<forall>now. now < clock demo_request + ttl ?D \<longrightarrow>
                  fst (store_retrieve (ttl ?D) now (client_id demo_client, ''alice'', ''c2'')
                         (store (snd (register_request ?D demo_config demo_request ''alice''
                                        ''c2'' (JDict []) demo_world))))
                    = Some rd"
    and r3: "\<forall>cfg' req' uid rdata w2 w3 client' k.
                  get_client cfg' req' w2 = (Inr client', w3)
                \<and> fst (store_retrieve (ttl ?D) (clock req')
                         (client_id client', uid, challenge (response rdata)) (store w2))
                    = Some rd
                \<and> fst (register_response ?D cfg' req' uid rdata w2) = Inl (KeyError k)
                \<longrightarrow> complete_registration ?D rd (response rdata) (valid_facets client')
                      = Inl (KeyError k)"
    by blast
  have tr: "fst (store_retrieve (ttl ?D) (clock ?req')
                   (client_id demo_client, ''alice'', challenge (response ?rdata)) (store ?wr))
              = Some rd"
    using r2 n by simp
  have er: "complete_registration ?D rd (response ?rdata) (valid_facets demo_client)
              = Inl (KeyError ''signature'')"
    using r3 cr tr kr by blast
  from th bs obtain sd hm where
    s1: "map_of sd ''handleMap'' = Some (JDict hm)"
    and s1': "map_of sd ''properties'' = Some (JDict [])"
    and s2: "\<forall>now. now < clock demo_request + ttl ?D \<longrightarrow>
                  fst (store_retrieve (ttl ?D) now (client_id demo_client, ''alice'', ''c2'')
                         (store (snd (sign_request ?D demo_config demo_request ''alice''
                                        ''c2'' (JDict []) demo_world))))
                    = Some sd"
    and s3: "\<forall>cfg' req' uid rdata w2 w3 client' k.
                  get_client cfg' req' w2 = (Inr client', w3)
                \<and> fst (store_retrieve (ttl ?D) (clock req')
                         (client_id client', uid, challenge (response rdata)) (store w2))
                    = Some sd
                \<and> fst (sign_response ?D cfg' req' uid rdata w2) = Inl (KeyError k)
                \<longrightarrow> complete_authentication ?D sd (response rdata) (valid_facets client')
                      = Inl (KeyError k)
                    \<or> (\<exists>ident cnt presence.
                          complete_authentication ?D sd (response rdata) (valid_facets client')
                            = Inr (ident, cnt, presence)
                        \<and> ((map_of ident ''keyHandle'' = None \<and> k = ''keyHandle'')
                           \<or> (\<exists>kh. map_of ident ''keyHandle'' = Some kh
                                 \<and> (json_getitem (JDict hm) kh = Inl (KeyError k)
                                    \<or> (\<exists>hv u. json_getitem (JDict hm) kh = Inr hv
                                          \<and> find (\<lambda>u. owner u = client_id client'
                                                       \<and> user_name u = uid)
                                                (users (db w2)) = Some u
                                          \<and> devices_getitem ?D u hv = Inl (KeyError k))))))"
    by blast
  have ts: "fst (store_retrieve (ttl ?D) (clock ?req')
                   (client_id demo_client, ''alice'', challenge (response ?rdata)) (store ?ws))
              = Some sd"
    using s2 n by simp
  have ea: "complete_authentication ?D sd (response ?rdata) (valid_facets demo_client)
              = Inr ([(''keyHandle'', JStr ''other'')], 1, 1)"
    by (simp add: demo_deps_refusing_def demo_deps_def)
  have "complete_authentication ?D sd (response ?rdata) (valid_facets demo_client)
                      = Inl (KeyError ''other'')
                    \<or> (\<exists>ident cnt presence.
                          complete_authentication ?D sd (response ?rdata) (valid_facets demo_client)
                            = Inr (ident, cnt, presence)
                        \<and> ((map_of ident ''keyHandle'' = None \<and> ''other'' = ''keyHandle'')
                           \<or> (\<exists>kh. map_of ident ''keyHandle'' = Some kh
                                 \<and> (json_getitem (JDict hm) kh = Inl (KeyError ''other'')
                                    \<or> (\<exists>hv u. json_getitem (JDict hm) kh = Inr hv
                                          \<and> find (\<lambda>u. owner u = client_id demo_client
                                                       \<and> user_name u = ''alice'')
                                                (users (db ?ws)) = Some u
                                          \<and> devices_getitem ?D u hv = Inl (KeyError ''other''))))))"
    using s3 cs ts ks by blast
  then have es: "\<exists>ident cnt presence kh.
             complete_authentication ?D sd (response ?rdata) (valid_facets demo_client)
               = Inr (ident, cnt, presence)
           \<and> map_of ident ''keyHandle'' = Some kh
           \<and> (json_getitem (JDict hm) kh = Inl (KeyError ''other'')
              \<or> (\<exists>hv u. json_getitem (JDict hm) kh = Inr hv
                    \<and> find (\<lambda>u. owner u = client_id demo_client \<and> user_name u = ''alice'')
                          (users (db ?ws)) = Some u
                    \<and> devices_getitem ?D u hv = Inl (KeyError ''other'')))"
    by (auto simp: ea)
  show ?thesis using r1 kr er s1 s1' ks es by blast
qed

section \<open>Eligible devices\<close>







end
